theory Spec2Isabelle
  imports Complex_Main "HOL-Library.Word"
begin

section \<open>Data model of main.go\<close>

text \<open>
  The structs of main.go as records. Go's \<open>uint64\<close> is \<open>64 word\<close>: addition and
  subtraction wrap around modulo \<open>2 ^ 64\<close>, as in Go. Go's \<open>float64\<close> is the type
  parameter \<open>'f\<close>; its operations are passed in a record (see \<open>float64_ops\<close> below), so
  that nothing proved here depends on how floating point rounds. The two structs
  \<open>TelegramMessage\<close> and \<open>GotifyMessage\<close> both have fields \<open>ThresholdStatus\<close> and
  \<open>RatioStatus\<close>; the record fields carry the struct's name as a prefix to keep them apart.
\<close>

type_synonym uint64 = "64 word"

record NetStats =
  ReceiveBytes :: uint64
  TransmitBytes :: uint64

record Statistics =
  TotalReceive :: uint64
  TotalTransmit :: uint64
  LastReceive :: uint64
  LastTransmit :: uint64
  LastReset :: string

record 'f Comparison =
  Category :: string
  Limit :: 'f
  Threshold :: 'f
  Ratio :: 'f

record TelegramMessage =
  Telegram_ThresholdStatus :: bool
  Telegram_RatioStatus :: bool
  Token :: string
  ChatID :: string

record GotifyMessage =
  Gotify_ThresholdStatus :: bool
  Gotify_RatioStatus :: bool
  URL :: string
  AppToken :: string

record Message =
  Service :: string
  Telegram :: TelegramMessage
  Gotify :: GotifyMessage

record 'f Config =
  Device :: string
  Interface :: string
  Interval :: int
  StartDay :: int
  Statistics :: Statistics
  Comparison :: "'f Comparison"
  Message :: Message

section \<open>The accumulation step of the main loop\<close>

text \<open>
  Lines 443 to 459 of main.go, the part of the loop body between reading the counters and
  saving the configuration, statement by statement: the two reboot checks, the two
  unconditional additions of the difference, the two assignments of the last values.
\<close>

definition accumulate :: "NetStats \<Rightarrow> 'f Config \<Rightarrow> 'f Config" where
  "accumulate stats config =
     (let s0 = Statistics config;
          s1 = (if ReceiveBytes stats < LastReceive s0
                then s0\<lparr>TotalReceive := TotalReceive s0 + LastReceive s0\<rparr> else s0);
          s2 = (if TransmitBytes stats < LastTransmit s1
                then s1\<lparr>TotalTransmit := TotalTransmit s1 + LastTransmit s1\<rparr> else s1);
          s3 = s2\<lparr>TotalReceive := TotalReceive s2 + (ReceiveBytes stats - LastReceive s2)\<rparr>;
          s4 = s3\<lparr>TotalTransmit := TotalTransmit s3 + (TransmitBytes stats - LastTransmit s3)\<rparr>;
          s5 = s4\<lparr>LastReceive := ReceiveBytes stats\<rparr>;
          s6 = s5\<lparr>LastTransmit := TransmitBytes stats\<rparr>
      in config\<lparr>Statistics := s6\<rparr>)"

text \<open>Several ticks in a row, each with its own sample and no cycle reset between them.\<close>

fun accumulate_all :: "NetStats list \<Rightarrow> 'f Config \<Rightarrow> 'f Config" where
  "accumulate_all [] config = config"
| "accumulate_all (stats # rest) config = accumulate_all rest (accumulate stats config)"

text \<open>
  The specification's words for the monotonic case: the differences of consecutive
  counter values, starting from a baseline.
\<close>

fun consecutive_deltas :: "uint64 \<Rightarrow> uint64 list \<Rightarrow> uint64 list" where
  "consecutive_deltas base [] = []"
| "consecutive_deltas base (v # vs) = (v - base) # consecutive_deltas v vs"

section \<open>Calendar time, as much of Go's package time as main.go uses\<close>

text \<open>
  A \<open>time.Time\<close> is an instant together with a location. Here it is kept as the civil
  date and the nanoseconds since midnight that the location's clock shows, together with
  the location's offset from UTC in seconds (positive east of Greenwich); a location is
  its offset, so \<open>time.UTC\<close> is 0 and \<open>time.Local\<close> is the offset of the value that
  \<open>time.Now()\<close> returns. Daylight-saving changes inside one run are not modelled.
  \<open>Year\<close>, \<open>Month\<close> and \<open>Day\<close> read the fields; \<open>Before\<close> and \<open>After\<close> compare
  instants, as Go does.
\<close>

record Time =
  Year :: int
  Month :: int
  Day :: int
  nsecOfDay :: int
  zoneOffset :: int

definition UTC :: int where
  "UTC = 0"

definition zeroTime :: Time where
  "zeroTime = \<lparr>Year = 1, Month = 1, Day = 1, nsecOfDay = 0, zoneOffset = UTC\<rparr>"

definition isLeap :: "int \<Rightarrow> bool" where
  "isLeap year =
     (if year mod 400 = 0 then True else if year mod 100 = 0 then False else year mod 4 = 0)"

definition daysIn :: "int \<Rightarrow> int \<Rightarrow> int" where
  "daysIn m year =
     (if m = 2 then (if isLeap year then 29 else 28)
      else if m = 4 then 30 else if m = 6 then 30 else if m = 9 then 30
      else if m = 11 then 30 else 31)"

definition monthBefore :: "int \<Rightarrow> int" where
  "monthBefore m = (if m = 1 then 12 else m - 1)"

definition yearOfMonthBefore :: "int \<Rightarrow> int \<Rightarrow> int" where
  "yearOfMonthBefore year m = (if m = 1 then year - 1 else year)"

definition monthAfter :: "int \<Rightarrow> int" where
  "monthAfter m = (if m = 12 then 1 else m + 1)"

definition yearOfMonthAfter :: "int \<Rightarrow> int \<Rightarrow> int" where
  "yearOfMonthAfter year m = (if m = 12 then year + 1 else year)"

lemma daysIn_bounds: "28 \<le> daysIn m year" "daysIn m year \<le> 31"
  by (simp_all add: daysIn_def)

text \<open>
  \<open>time.Date\<close> accepts a day outside the month and normalises it: day 0 is the last day
  of the month before, day 32 of a month of 31 days the first of the next. \<open>normDay\<close>
  walks month by month until the day fits.
\<close>

function normDay :: "int \<Rightarrow> int \<Rightarrow> int \<Rightarrow> int \<times> int \<times> int" where
  "normDay year m d =
     (if d < 1 then
        normDay (yearOfMonthBefore year m) (monthBefore m)
          (d + daysIn (monthBefore m) (yearOfMonthBefore year m))
      else if daysIn m year < d then
        normDay (yearOfMonthAfter year m) (monthAfter m) (d - daysIn m year)
      else (year, m, d))"
  by pat_completeness auto
termination
proof (relation "measure (\<lambda>(year, m, d). if d < 1 then nat (33 - d) else nat d)", goal_cases)
  case 1
  show ?case by simp
next
  case (2 year m d)
  then show ?case
    using daysIn_bounds [of "monthBefore m" "yearOfMonthBefore year m"] by auto
next
  case (3 year m d)
  then show ?case
    using daysIn_bounds [of m year] by auto
qed

definition Date :: "int \<Rightarrow> int \<Rightarrow> int \<Rightarrow> int \<Rightarrow> int \<Rightarrow> int \<Rightarrow> int \<Rightarrow> int \<Rightarrow> Time" where
  "Date year month day hour minute sec nsec loc =
     (let m0 = month - 1;
          year1 = year + m0 div 12;
          month1 = m0 mod 12 + 1;
          sec1 = sec + nsec div 1000000000;
          nsec1 = nsec mod 1000000000;
          minute1 = minute + sec1 div 60;
          sec2 = sec1 mod 60;
          hour1 = hour + minute1 div 60;
          minute2 = minute1 mod 60;
          day1 = day + hour1 div 24;
          hour2 = hour1 mod 24;
          ymd = normDay year1 month1 day1
      in \<lparr>Year = fst ymd, Month = fst (snd ymd), Day = snd (snd ymd),
          nsecOfDay = ((hour2 * 60 + minute2) * 60 + sec2) * 1000000000 + nsec1,
          zoneOffset = loc\<rparr>)"

definition AddDate :: "Time \<Rightarrow> int \<Rightarrow> int \<Rightarrow> int \<Rightarrow> Time" where
  "AddDate t years months days =
     Date (Year t + years) (Month t + months) (Day t + days) 0 0 0 (nsecOfDay t) (zoneOffset t)"

text \<open>
  The instant of a time, in nanoseconds since midnight UTC of 1 January of year 1: the
  days of the years before, the days of the months before, the days of the month, the
  clock, and the offset taken away.
\<close>

definition daysBefore :: "int \<Rightarrow> int \<Rightarrow> int" where
  "daysBefore m year = sum_list (map (\<lambda>k. daysIn k year) [1..m - 1])"

definition daysSinceEpoch :: "int \<Rightarrow> int \<Rightarrow> int \<Rightarrow> int" where
  "daysSinceEpoch year m d =
     365 * (year - 1) + (year - 1) div 4 - (year - 1) div 100 + (year - 1) div 400
       + daysBefore m year + (d - 1)"

definition absNano :: "Time \<Rightarrow> int" where
  "absNano t =
     (daysSinceEpoch (Year t) (Month t) (Day t) * 86400 - zoneOffset t) * 1000000000
       + nsecOfDay t"

definition Before :: "Time \<Rightarrow> Time \<Rightarrow> bool" where
  "Before t u = (absNano t < absNano u)"

definition After :: "Time \<Rightarrow> Time \<Rightarrow> bool" where
  "After t u = (absNano u < absNano t)"

subsection \<open>The layout 2006-01-02\<close>

text \<open>
  \<open>Parse\<close> and \<open>Format\<close> are the two calls main.go makes, both with the layout
  \<open>"2006-01-02"\<close>. Parsing accepts exactly four digits, a hyphen, two digits, a hyphen
  and two digits, with the month from 1 to 12 and the day inside the month, and nothing
  after; the result is midnight of that date in UTC, since the layout has no zone.
  Formatting prints the civil date of the time in its own location.
\<close>

definition isDigit :: "string \<Rightarrow> nat \<Rightarrow> bool" where
  "isDigit s i = (i < length s \<and> 48 \<le> (of_char (s ! i) :: nat) \<and> (of_char (s ! i) :: nat) \<le> 57)"

definition digitAt :: "string \<Rightarrow> nat \<Rightarrow> int" where
  "digitAt s i = int (of_char (s ! i)) - 48"

definition Parse :: "string \<Rightarrow> Time option" where
  "Parse v =
     (if length v = 10 \<and> isDigit v 0 \<and> isDigit v 1 \<and> isDigit v 2 \<and> isDigit v 3
         \<and> v ! 4 = CHR ''-'' \<and> isDigit v 5 \<and> isDigit v 6
         \<and> v ! 7 = CHR ''-'' \<and> isDigit v 8 \<and> isDigit v 9
      then
        (let year = digitAt v 0 * 1000 + digitAt v 1 * 100 + digitAt v 2 * 10 + digitAt v 3;
             month = digitAt v 5 * 10 + digitAt v 6;
             day = digitAt v 8 * 10 + digitAt v 9
         in if month < 1 then None
            else if 12 < month then None
            else if day < 1 then None
            else if daysIn month year < day then None
            else Some (Date year month day 0 0 0 0 UTC))
      else None)"

fun digitsOf :: "nat \<Rightarrow> string" where
  "digitsOf n =
     (if n < 10 then [''0123456789'' ! n]
      else digitsOf (n div 10) @ [''0123456789'' ! (n mod 10)])"

definition appendInt :: "int \<Rightarrow> nat \<Rightarrow> string" where
  "appendInt x width =
     (let ds = digitsOf (nat \<bar>x\<bar>)
      in (if x < 0 then ''-'' else []) @ replicate (width - length ds) (CHR ''0'') @ ds)"

definition Format :: "Time \<Rightarrow> string" where
  "Format t = appendInt (Year t) 4 @ ''-'' @ appendInt (Month t) 2 @ ''-'' @ appendInt (Day t) 2"

section \<open>checkReset\<close>

text \<open>
  Lines 116 to 146. The first argument is the value of \<open>time.Now()\<close> at line 117. The
  recorded date is parsed in UTC, the reset date is built in \<open>time.Local\<close>, and the two
  comparisons at line 141 are between instants.
\<close>

definition checkReset :: "Time \<Rightarrow> 'f Config \<Rightarrow> bool" where
  "checkReset currentTime config =
     (case Parse (LastReset (Statistics config)) of
        None \<Rightarrow> True
      | Some lastReset \<Rightarrow>
          (let Local = zoneOffset currentTime;
               firstOfMonth = Date (Year currentTime) (Month currentTime) 1 0 0 0 0 Local;
               nextMonth = AddDate firstOfMonth 0 1 0;
               lastDayOfMonth = Day (AddDate nextMonth 0 0 (- 1));
               resetDay = (if StartDay config > lastDayOfMonth then lastDayOfMonth
                           else StartDay config);
               resetDate = Date (Year currentTime) (Month currentTime) resetDay 0 0 0 0 Local
           in if Before lastReset resetDate \<and> After currentTime resetDate then True
              else False))"

section \<open>The outside world\<close>

text \<open>
  main.go talks to the network, the file system, the clock and the shell. The model
  threads a \<open>World\<close> through every function that does: it holds what the network will
  answer to the HTTP requests still to come (one outcome per request, in order; when the
  list is used up a request fails in transport), whether a \<open>shutdown\<close> command is on
  the path, and the trace of what the program did so far. The trace records each call of
  \<open>sendMessage\<close> (the notifier of the specification), each HTTP request, each line
  printed, each write of the configuration file, each sleep and each command run. A
  failed write of the configuration file only prints a line and changes nothing else, so
  writes always succeed here. Message texts are kept as the values they are formatted
  from.
\<close>

record 'f float64_ops =
  fromUint64 :: "uint64 \<Rightarrow> 'f"
  fromConst :: "int \<Rightarrow> 'f"
  fadd :: "'f \<Rightarrow> 'f \<Rightarrow> 'f"
  fmul :: "'f \<Rightarrow> 'f \<Rightarrow> 'f"
  fdiv :: "'f \<Rightarrow> 'f \<Rightarrow> 'f"
  fmax :: "'f \<Rightarrow> 'f \<Rightarrow> 'f"
  fge :: "'f \<Rightarrow> 'f \<Rightarrow> bool"

definition bytesToGB :: int where
  "bytesToGB = 1024 * 1024 * 1024"

datatype error =
    TelegramSendFailed
  | GotifySendFailed
  | GotifyErrorStatus nat
  | UnknownMessageService string
  | InvalidComparisonCategory string

datatype 'f categoryUsage =
    UsageUnknown
  | UsageDownload 'f 'f
  | UsageUpload 'f 'f
  | UsageTotal 'f 'f
  | UsageAnymax 'f 'f

datatype 'f notification =
    ThresholdMessage 'f 'f
  | RatioWarningMessage 'f 'f
  | SummaryMessage string 'f 'f 'f string 'f "'f categoryUsage"

datatype logline =
    FailedSummary error
  | FailedThresholdMessage error
  | FailedRatioWarning error
  | ErrorReadingStats
  | ComparisonError error

datatype http_outcome = TransportError | Response nat

datatype 'f event =
    SendMessage "'f notification"
  | HttpPost string "'f notification"
  | Printf logline
  | SaveConfig
  | Sleep int
  | Exec string

record 'f World =
  http_results :: "http_outcome list"
  has_shutdown :: bool
  trace :: "'f event list"

definition emit :: "'f event \<Rightarrow> 'f World \<Rightarrow> 'f World" where
  "emit e w = w\<lparr>trace := trace w @ [e]\<rparr>"

definition httpDo :: "string \<Rightarrow> 'f notification \<Rightarrow> 'f World \<Rightarrow> http_outcome \<times> 'f World" where
  "httpDo service message w =
     (case http_results w of
        [] \<Rightarrow> (TransportError, emit (HttpPost service message) w)
      | r # rs \<Rightarrow> (r, emit (HttpPost service message) (w\<lparr>http_results := rs\<rparr>)))"

definition saveConfig :: "'f Config \<Rightarrow> 'f World \<Rightarrow> 'f World" where
  "saveConfig config w = emit SaveConfig w"

section \<open>Sending messages\<close>

text \<open>
  Lines 224 to 295. \<open>sendTelegramMessage\<close> fails only when \<open>http.Post\<close> returns an
  error: it does not look at the status of the response. \<open>sendGotifyMessage\<close> fails
  also on a status of 400 or more. \<open>sendMessage\<close> fails on any service name other than
  the two, before any request is made.
\<close>

definition sendTelegramMessage ::
    "string \<Rightarrow> string \<Rightarrow> 'f notification \<Rightarrow> string \<Rightarrow> 'f World \<Rightarrow> error option \<times> 'f World" where
  "sendTelegramMessage token chatID message device w =
     (case httpDo ''telegram'' message w of
        (TransportError, w1) \<Rightarrow> (Some TelegramSendFailed, w1)
      | (Response status, w1) \<Rightarrow> (None, w1))"

definition sendGotifyMessage ::
    "string \<Rightarrow> string \<Rightarrow> 'f notification \<Rightarrow> string \<Rightarrow> 'f World \<Rightarrow> error option \<times> 'f World" where
  "sendGotifyMessage url appToken message device w =
     (case httpDo ''gotify'' message w of
        (TransportError, w1) \<Rightarrow> (Some GotifySendFailed, w1)
      | (Response status, w1) \<Rightarrow>
          (if 400 \<le> status then (Some (GotifyErrorStatus status), w1) else (None, w1)))"

definition sendMessage ::
    "'f Config \<Rightarrow> 'f notification \<Rightarrow> 'f World \<Rightarrow> error option \<times> 'f World" where
  "sendMessage config message w =
     (let w0 = emit (SendMessage message) w
      in if Service (Message config) = ''telegram'' then
           sendTelegramMessage (Token (Telegram (Message config)))
             (ChatID (Telegram (Message config))) message (Device config) w0
         else if Service (Message config) = ''gotify'' then
           sendGotifyMessage (URL (Gotify (Message config)))
             (AppToken (Gotify (Message config))) message (Device config) w0
         else (Some (UnknownMessageService (Service (Message config))), w0))"

section \<open>Closing a cycle\<close>

text \<open>Lines 149 to 192: the summary of the cycle that ends.\<close>

definition sendStatisticsSummary ::
    "'f float64_ops \<Rightarrow> 'f Config \<Rightarrow> 'f World \<Rightarrow> error option \<times> 'f World" where
  "sendStatisticsSummary ops config w =
     (let receiveGB = fdiv ops (fromUint64 ops (TotalReceive (Statistics config)))
                        (fromConst ops bytesToGB);
          transmitGB = fdiv ops (fromUint64 ops (TotalTransmit (Statistics config)))
                         (fromConst ops bytesToGB);
          totalGB = fadd ops receiveGB transmitGB;
          category = Category (Comparison config);
          limit = Limit (Comparison config);
          percent = (\<lambda>gb. fmul ops (fdiv ops gb limit) (fromConst ops 100));
          categoryUsage =
            (if category = ''download'' then UsageDownload receiveGB (percent receiveGB)
             else if category = ''upload'' then UsageUpload transmitGB (percent transmitGB)
             else if category = ''upload+download'' then UsageTotal totalGB (percent totalGB)
             else if category = ''anymax'' then
               UsageAnymax (fmax ops receiveGB transmitGB)
                 (percent (fmax ops receiveGB transmitGB))
             else UsageUnknown);
          lastResetTime = (case Parse (LastReset (Statistics config)) of
                             None \<Rightarrow> zeroTime | Some t \<Rightarrow> t);
          message = SummaryMessage (Format lastResetTime) receiveGB transmitGB totalGB
                      category limit categoryUsage
      in sendMessage config message w)"

text \<open>
  Lines 195 to 222. The second argument is the value of \<open>time.Now()\<close> at line 207, a
  later reading of the clock than the one \<open>checkReset\<close> made.
\<close>

definition resetStatistics ::
    "'f float64_ops \<Rightarrow> Time \<Rightarrow> 'f Config \<Rightarrow> 'f World \<Rightarrow> 'f Config \<times> 'f World" where
  "resetStatistics ops now config w =
     (let sent = sendStatisticsSummary ops config w;
          w1 = (case fst sent of
                  Some err \<Rightarrow> emit (Printf (FailedSummary err)) (snd sent)
                | None \<Rightarrow> snd sent);
          c1 = config\<lparr>Statistics := (Statistics config)\<lparr>TotalReceive := 0\<rparr>\<rparr>;
          c2 = c1\<lparr>Statistics := (Statistics c1)\<lparr>TotalTransmit := 0\<rparr>\<rparr>;
          c3 = c2\<lparr>Statistics := (Statistics c2)\<lparr>LastReset := Format now\<rparr>\<rparr>;
          c4 = c3\<lparr>Message := (Message c3)\<lparr>Telegram :=
                 (Telegram (Message c3))\<lparr>Telegram_ThresholdStatus := False\<rparr>\<rparr>\<rparr>;
          c5 = c4\<lparr>Message := (Message c4)\<lparr>Telegram :=
                 (Telegram (Message c4))\<lparr>Telegram_RatioStatus := False\<rparr>\<rparr>\<rparr>;
          c6 = c5\<lparr>Message := (Message c5)\<lparr>Gotify :=
                 (Gotify (Message c5))\<lparr>Gotify_ThresholdStatus := False\<rparr>\<rparr>\<rparr>;
          c7 = c6\<lparr>Message := (Message c6)\<lparr>Gotify :=
                 (Gotify (Message c6))\<lparr>Gotify_RatioStatus := False\<rparr>\<rparr>\<rparr>
      in (c7, saveConfig c7 w1))"

section \<open>performComparison\<close>

text \<open>
  Lines 304 to 397, cut where the source has its blank lines: the switch on the category
  (\<open>valueInGB\<close>), the two limits, the two status flags read from the configured service,
  the threshold block (lines 337 to 356) and the shutdown block (lines 359 to 394).
  After the shutdown command the model goes on, as the program does when the command
  fails.
\<close>

definition valueInGB :: "'f float64_ops \<Rightarrow> 'f Config \<Rightarrow> error + 'f" where
  "valueInGB ops config =
     (let category = Category (Comparison config);
          st = Statistics config
      in if category = ''download'' then
           Inr (fdiv ops (fromUint64 ops (TotalReceive st)) (fromConst ops bytesToGB))
         else if category = ''upload'' then
           Inr (fdiv ops (fromUint64 ops (TotalTransmit st)) (fromConst ops bytesToGB))
         else if category = ''upload+download'' then
           Inr (fdiv ops (fromUint64 ops (TotalReceive st + TotalTransmit st))
                  (fromConst ops bytesToGB))
         else if category = ''anymax'' then
           Inr (fmax ops
                  (fdiv ops (fromUint64 ops (TotalReceive st)) (fromConst ops bytesToGB))
                  (fdiv ops (fromUint64 ops (TotalTransmit st)) (fromConst ops bytesToGB)))
         else Inl (InvalidComparisonCategory category))"

definition thresholdLimit :: "'f float64_ops \<Rightarrow> 'f Config \<Rightarrow> 'f" where
  "thresholdLimit ops config = fmul ops (Limit (Comparison config)) (Threshold (Comparison config))"

definition ratioLimit :: "'f float64_ops \<Rightarrow> 'f Config \<Rightarrow> 'f" where
  "ratioLimit ops config = fmul ops (Limit (Comparison config)) (Ratio (Comparison config))"

definition thresholdStatus :: "'f Config \<Rightarrow> bool" where
  "thresholdStatus config =
     (if Service (Message config) = ''telegram'' then
        Telegram_ThresholdStatus (Telegram (Message config))
      else if Service (Message config) = ''gotify'' then
        Gotify_ThresholdStatus (Gotify (Message config))
      else False)"

definition ratioStatus :: "'f Config \<Rightarrow> bool" where
  "ratioStatus config =
     (if Service (Message config) = ''telegram'' then
        Telegram_RatioStatus (Telegram (Message config))
      else if Service (Message config) = ''gotify'' then
        Gotify_RatioStatus (Gotify (Message config))
      else False)"

definition setThresholdStatus :: "'f Config \<Rightarrow> 'f Config" where
  "setThresholdStatus config =
     (if Service (Message config) = ''telegram'' then
        config\<lparr>Message := (Message config)\<lparr>Telegram :=
          (Telegram (Message config))\<lparr>Telegram_ThresholdStatus := True\<rparr>\<rparr>\<rparr>
      else if Service (Message config) = ''gotify'' then
        config\<lparr>Message := (Message config)\<lparr>Gotify :=
          (Gotify (Message config))\<lparr>Gotify_ThresholdStatus := True\<rparr>\<rparr>\<rparr>
      else config)"

definition setRatioStatus :: "'f Config \<Rightarrow> 'f Config" where
  "setRatioStatus config =
     (if Service (Message config) = ''telegram'' then
        config\<lparr>Message := (Message config)\<lparr>Telegram :=
          (Telegram (Message config))\<lparr>Telegram_RatioStatus := True\<rparr>\<rparr>\<rparr>
      else if Service (Message config) = ''gotify'' then
        config\<lparr>Message := (Message config)\<lparr>Gotify :=
          (Gotify (Message config))\<lparr>Gotify_RatioStatus := True\<rparr>\<rparr>\<rparr>
      else config)"

definition thresholdMessage :: "'f float64_ops \<Rightarrow> 'f \<Rightarrow> 'f Config \<Rightarrow> 'f notification" where
  "thresholdMessage ops v config =
     ThresholdMessage v (fmul ops (Threshold (Comparison config)) (fromConst ops 100))"

definition ratioMessage :: "'f float64_ops \<Rightarrow> 'f \<Rightarrow> 'f Config \<Rightarrow> 'f notification" where
  "ratioMessage ops v config =
     RatioWarningMessage v (fmul ops (Ratio (Comparison config)) (fromConst ops 100))"

definition thresholdBlock ::
    "'f float64_ops \<Rightarrow> 'f \<Rightarrow> 'f \<Rightarrow> bool \<Rightarrow> 'f Config \<Rightarrow> 'f World \<Rightarrow> 'f Config \<times> 'f World" where
  "thresholdBlock ops v tlimit tstatus config w =
     (if fge ops v tlimit \<and> \<not> tstatus then
        (case sendMessage config (thresholdMessage ops v config) w of
           (Some err, w1) \<Rightarrow> (config, emit (Printf (FailedThresholdMessage err)) w1)
         | (None, w1) \<Rightarrow>
             (setThresholdStatus config, saveConfig (setThresholdStatus config) w1))
      else (config, w))"

definition shutdownCommand :: "'f World \<Rightarrow> string" where
  "shutdownCommand w = (if has_shutdown w then ''shutdown -h now'' else ''poweroff'')"

definition ratioBlock ::
    "'f float64_ops \<Rightarrow> 'f \<Rightarrow> 'f \<Rightarrow> bool \<Rightarrow> 'f Config \<Rightarrow> 'f World \<Rightarrow> 'f Config \<times> 'f World" where
  "ratioBlock ops v rlimit rstatus config w =
     (if fge ops v rlimit \<and> \<not> rstatus then
        (case sendMessage config (ratioMessage ops v config) w of
           (Some err, w1) \<Rightarrow> (config, emit (Printf (FailedRatioWarning err)) w1)
         | (None, w1) \<Rightarrow>
             (let w2 = saveConfig (setRatioStatus config) w1;
                  w3 = emit (Sleep 30) w2;
                  w4 = emit (Exec (shutdownCommand w3)) w3
              in (setRatioStatus config, w4)))
      else (config, w))"

definition performComparison ::
    "'f float64_ops \<Rightarrow> 'f Config \<Rightarrow> 'f World \<Rightarrow> error option \<times> 'f Config \<times> 'f World" where
  "performComparison ops config w =
     (case valueInGB ops config of
        Inl err \<Rightarrow> (Some err, config, w)
      | Inr v \<Rightarrow>
          (let tlimit = thresholdLimit ops config;
               rlimit = ratioLimit ops config;
               tstatus = thresholdStatus config;
               rstatus = ratioStatus config;
               after_threshold = thresholdBlock ops v tlimit tstatus config w;
               after_ratio = ratioBlock ops v rlimit rstatus
                               (fst after_threshold) (snd after_threshold)
           in (None, fst after_ratio, snd after_ratio)))"

section \<open>One round of the main loop\<close>

text \<open>
  Lines 429 to 481. What a round reads from outside: the clock at \<open>checkReset\<close>, the
  clock at \<open>resetStatistics\<close> (read only when the cycle is reset), and the counters of
  the interface, or none when \<open>readNetworkStats\<close> fails. The loop never returns;
  \<open>mainLoop\<close> runs as many rounds as it is given readings.
\<close>

record Reading =
  checkTime :: Time
  resetTime :: Time
  netStats :: "NetStats option"

definition interval :: "'f Config \<Rightarrow> int" where
  "interval config = (if Interval config = 0 then 600 else Interval config)"

definition loopBody ::
    "'f float64_ops \<Rightarrow> Reading \<Rightarrow> 'f Config \<times> 'f World \<Rightarrow> 'f Config \<times> 'f World" where
  "loopBody ops r cw =
     (let cw1 = (if checkReset (checkTime r) (fst cw)
                 then resetStatistics ops (resetTime r) (fst cw) (snd cw) else cw)
      in case netStats r of
           None \<Rightarrow>
             (fst cw1, emit (Sleep (interval (fst cw1))) (emit (Printf ErrorReadingStats) (snd cw1)))
         | Some stats \<Rightarrow>
             (let config2 = accumulate stats (fst cw1);
                  w2 = saveConfig config2 (snd cw1);
                  compared = performComparison ops config2 w2;
                  w3 = (case fst compared of
                          Some err \<Rightarrow> emit (Printf (ComparisonError err)) (snd (snd compared))
                        | None \<Rightarrow> snd (snd compared))
              in (fst (snd compared), emit (Sleep (interval (fst (snd compared)))) w3)))"

fun mainLoop ::
    "'f float64_ops \<Rightarrow> Reading list \<Rightarrow> 'f Config \<times> 'f World \<Rightarrow> 'f Config \<times> 'f World" where
  "mainLoop ops [] cw = cw"
| "mainLoop ops (r # rs) cw = mainLoop ops rs (loopBody ops r cw)"

section \<open>What is observed in a trace\<close>

text \<open>
  The events a property below counts: the calls of the notifier with the threshold
  message, those with the shutdown warning, and what the program does to the outside
  (requests, writes of the configuration file, sleeps and commands), as opposed to the
  calls and printed lines that stay inside it.
\<close>

fun isThresholdSend :: "'f event \<Rightarrow> bool" where
  "isThresholdSend (SendMessage (ThresholdMessage v p)) = True"
| "isThresholdSend e = False"

fun isRatioSend :: "'f event \<Rightarrow> bool" where
  "isRatioSend (SendMessage (RatioWarningMessage v p)) = True"
| "isRatioSend e = False"

fun isShutdown :: "'f event \<Rightarrow> bool" where
  "isShutdown (Exec cmd) = True"
| "isShutdown e = False"

fun isOutsideAction :: "'f event \<Rightarrow> bool" where
  "isOutsideAction (HttpPost service message) = True"
| "isOutsideAction SaveConfig = True"
| "isOutsideAction (Sleep n) = True"
| "isOutsideAction (Exec cmd) = True"
| "isOutsideAction e = False"

fun isPrintf :: "'f event \<Rightarrow> bool" where
  "isPrintf (Printf l) = True"
| "isPrintf e = False"

definition validCategory :: "string \<Rightarrow> bool" where
  "validCategory c =
     (if c = ''download'' then True else if c = ''upload'' then True
      else if c = ''upload+download'' then True else c = ''anymax'')"

definition knownService :: "string \<Rightarrow> bool" where
  "knownService s = (if s = ''telegram'' then True else s = ''gotify'')"

section \<open>Concrete inputs\<close>

text \<open>
  For concrete runs \<open>float64\<close> is read as exact arithmetic on the reals. The inputs
  below use limits and byte counts that binary floating point represents exactly (halves,
  quarters, whole gigabytes), so the comparisons come out as they do in Go.
\<close>

definition exactOps :: "real float64_ops" where
  "exactOps = \<lparr>fromUint64 = (\<lambda>x. real_of_int (uint x)), fromConst = real_of_int,
                fadd = (\<lambda>a b. a + b), fmul = (\<lambda>a b. a * b), fdiv = (\<lambda>a b. a / b),
                fmax = max, fge = (\<lambda>a b. b \<le> a)\<rparr>"

definition exampleConfig :: "string \<Rightarrow> string \<Rightarrow> uint64 \<Rightarrow> string \<Rightarrow> real Config" where
  "exampleConfig service category received lastReset =
     \<lparr>Device = ''vps'', Interface = ''eth0'', Interval = 600, StartDay = 5,
      Statistics = \<lparr>TotalReceive = received, TotalTransmit = 0,
                    LastReceive = 50, LastTransmit = 60, LastReset = lastReset\<rparr>,
      Comparison = \<lparr>Category = category, Limit = 100, Threshold = 1 / 2, Ratio = 3 / 4\<rparr>,
      Message = \<lparr>Service = service,
                 Telegram = \<lparr>Telegram_ThresholdStatus = False, Telegram_RatioStatus = False,
                             Token = ''token'', ChatID = ''chat''\<rparr>,
                 Gotify = \<lparr>Gotify_ThresholdStatus = False, Gotify_RatioStatus = False,
                           URL = ''http://gotify.example'', AppToken = ''app''\<rparr>\<rparr>\<rparr>"

definition exampleWorld :: "http_outcome list \<Rightarrow> real World" where
  "exampleWorld outcomes = \<lparr>http_results = outcomes, has_shutdown = True, trace = []\<rparr>"

definition noon :: "int \<Rightarrow> int \<Rightarrow> int \<Rightarrow> int \<Rightarrow> Time" where
  "noon year m d offset =
     \<lparr>Year = year, Month = m, Day = d, nsecOfDay = 43200000000000, zoneOffset = offset\<rparr>"

section \<open>Properties of the accumulation step\<close>

lemma accumulate_TotalReceive:
  "TotalReceive (Statistics (accumulate stats config)) =
     (if ReceiveBytes stats < LastReceive (Statistics config)
      then TotalReceive (Statistics config) + ReceiveBytes stats
      else TotalReceive (Statistics config)
             + (ReceiveBytes stats - LastReceive (Statistics config)))"
  by (simp add: accumulate_def Let_def)

lemma accumulate_TotalTransmit:
  "TotalTransmit (Statistics (accumulate stats config)) =
     (if TransmitBytes stats < LastTransmit (Statistics config)
      then TotalTransmit (Statistics config) + TransmitBytes stats
      else TotalTransmit (Statistics config)
             + (TransmitBytes stats - LastTransmit (Statistics config)))"
  by (simp add: accumulate_def Let_def)

lemma accumulate_Last:
  "LastReceive (Statistics (accumulate stats config)) = ReceiveBytes stats"
  "LastTransmit (Statistics (accumulate stats config)) = TransmitBytes stats"
  by (simp_all add: accumulate_def Let_def)

lemma consecutive_deltas_telescope:
  "sorted (base # vs) \<Longrightarrow> sum_list (consecutive_deltas base vs) = last (base # vs) - base"
  by (induction vs arbitrary: base) auto

lemma consecutive_deltas_telescope_nat:
  "sorted (base # vs) \<Longrightarrow>
     sum_list (map unat (consecutive_deltas base vs)) = unat (last (base # vs)) - unat base"
proof (induction vs arbitrary: base)
  case Nil
  then show ?case by simp
next
  case (Cons v vs)
  have le: "base \<le> v" using Cons.prems by simp
  have "sorted (v # vs)" using Cons.prems by simp
  then have "v \<le> last (v # vs)"
    by (cases vs) (auto simp: last_in_set)
  then have "unat v \<le> unat (last (v # vs))"
    by (simp add: word_le_nat_alt)
  moreover have "unat base \<le> unat v"
    using le by (simp add: word_le_nat_alt)
  moreover have "unat (v - base) = unat v - unat base"
    using le by (simp add: unat_sub)
  ultimately show ?case
    using Cons.IH [OF \<open>sorted (v # vs)\<close>] by simp
qed

lemma accumulate_all_no_reset:
  "sorted (LastReceive (Statistics config) # map ReceiveBytes xs) \<Longrightarrow>
   TotalReceive (Statistics (accumulate_all xs config)) =
     TotalReceive (Statistics config)
       + sum_list (consecutive_deltas (LastReceive (Statistics config)) (map ReceiveBytes xs))"
proof (induction xs arbitrary: config)
  case Nil
  then show ?case by simp
next
  case (Cons x xs)
  have le: "LastReceive (Statistics config) \<le> ReceiveBytes x"
    using Cons.prems by simp
  have "sorted (LastReceive (Statistics (accumulate x config)) # map ReceiveBytes xs)"
    using Cons.prems by (simp add: accumulate_Last)
  from Cons.IH [OF this] le show ?case
    by (simp add: accumulate_Last accumulate_TotalReceive add.assoc not_less [symmetric])
qed

text \<open>
  Claim C1, as the code has it. When the received counter of the sample is below
  \<open>LastReceive\<close>, the step leaves \<open>TotalReceive\<close> at the total before plus the sample's
  value, modulo \<open>2 ^ 64\<close>: what was counted before the reset stays in the total and the
  counter's new value is added in full. The last value before the reset is not added a
  second time, so the total is never \<open>total + last + sample\<close>. The same holds for the
  transmit counter.
\<close>

theorem reset_adds_sample_to_total:
  "(ReceiveBytes stats < LastReceive (Statistics config) \<longrightarrow>
      unat (TotalReceive (Statistics (accumulate stats config)))
        = (unat (TotalReceive (Statistics config)) + unat (ReceiveBytes stats)) mod 2 ^ 64
      \<and> TotalReceive (Statistics (accumulate stats config))
        \<noteq> TotalReceive (Statistics config) + LastReceive (Statistics config)
            + ReceiveBytes stats)
   \<and> (TransmitBytes stats < LastTransmit (Statistics config) \<longrightarrow>
      unat (TotalTransmit (Statistics (accumulate stats config)))
        = (unat (TotalTransmit (Statistics config)) + unat (TransmitBytes stats)) mod 2 ^ 64
      \<and> TotalTransmit (Statistics (accumulate stats config))
        \<noteq> TotalTransmit (Statistics config) + LastTransmit (Statistics config)
            + TransmitBytes stats)"
proof -
  have nonzero: "l \<noteq> 0" if "v < l" for v l :: uint64
    using that by (metis not_less_zero word_less_nat_alt unsigned_0)
  show ?thesis
    by (auto simp: accumulate_TotalReceive accumulate_TotalTransmit unat_word_ariths
          dest: nonzero)
qed

theorem reset_adds_sample_to_total_witness:
  "ReceiveBytes \<lparr>ReceiveBytes = 7, TransmitBytes = 9\<rparr>
     < LastReceive (Statistics (exampleConfig ''telegram'' ''download'' 100 ''2024-01-05''))
   \<and> TransmitBytes \<lparr>ReceiveBytes = 7, TransmitBytes = 9\<rparr>
     < LastTransmit (Statistics (exampleConfig ''telegram'' ''download'' 100 ''2024-01-05''))
   \<and> unat (TotalReceive (Statistics (accumulate \<lparr>ReceiveBytes = 7, TransmitBytes = 9\<rparr>
        (exampleConfig ''telegram'' ''download'' 100 ''2024-01-05'')))) = 107
   \<and> unat (TotalTransmit (Statistics (accumulate \<lparr>ReceiveBytes = 7, TransmitBytes = 9\<rparr>
        (exampleConfig ''telegram'' ''download'' 100 ''2024-01-05'')))) = 9"
  using reset_adds_sample_to_total [of "\<lparr>ReceiveBytes = 7, TransmitBytes = 9\<rparr>"
      "exampleConfig ''telegram'' ''download'' 100 ''2024-01-05''"]
  by (simp add: exampleConfig_def)

text \<open>
  Claim C1 as the specification states it fails: with a total of 100, a last value of 50
  and a sample of 7 after a reboot, the step gives 107, not 100 + 50 + 7.
\<close>

theorem reset_total_counterexample:
  "ReceiveBytes \<lparr>ReceiveBytes = 7, TransmitBytes = 9\<rparr>
     < LastReceive (Statistics (exampleConfig ''telegram'' ''download'' 100 ''2024-01-05''))
   \<and> TotalReceive (Statistics (accumulate \<lparr>ReceiveBytes = 7, TransmitBytes = 9\<rparr>
        (exampleConfig ''telegram'' ''download'' 100 ''2024-01-05'')))
     \<noteq> TotalReceive (Statistics (exampleConfig ''telegram'' ''download'' 100 ''2024-01-05''))
       + LastReceive (Statistics (exampleConfig ''telegram'' ''download'' 100 ''2024-01-05''))
       + ReceiveBytes \<lparr>ReceiveBytes = 7, TransmitBytes = 9\<rparr>"
  by (simp add: exampleConfig_def accumulate_def Let_def)

text \<open>
  Claim C2. On a tick where a counter's sample is below its last value, adding the last
  value and then adding the wrapped difference \<open>sample - last\<close> is, in arithmetic modulo
  \<open>2 ^ 64\<close>, the same as adding the sample; for the receive counter and for the transmit
  counter, each whatever the other does.
\<close>

theorem reset_fold_then_delta_nets_to_sample:
  "(ReceiveBytes stats < LastReceive (Statistics config) \<longrightarrow>
      TotalReceive (Statistics (accumulate stats config))
        = (TotalReceive (Statistics config) + LastReceive (Statistics config))
            + (ReceiveBytes stats - LastReceive (Statistics config))
      \<and> TotalReceive (Statistics (accumulate stats config))
        = TotalReceive (Statistics config) + ReceiveBytes stats)
   \<and> (TransmitBytes stats < LastTransmit (Statistics config) \<longrightarrow>
      TotalTransmit (Statistics (accumulate stats config))
        = (TotalTransmit (Statistics config) + LastTransmit (Statistics config))
            + (TransmitBytes stats - LastTransmit (Statistics config))
      \<and> TotalTransmit (Statistics (accumulate stats config))
        = TotalTransmit (Statistics config) + TransmitBytes stats)"
  by (simp add: accumulate_TotalReceive accumulate_TotalTransmit)

theorem reset_fold_then_delta_nets_to_sample_witness:
  "ReceiveBytes \<lparr>ReceiveBytes = 3, TransmitBytes = 59\<rparr>
     < LastReceive (Statistics (exampleConfig ''gotify'' ''upload'' 1000 ''2024-01-05''))
   \<and> TransmitBytes \<lparr>ReceiveBytes = 3, TransmitBytes = 59\<rparr>
     < LastTransmit (Statistics (exampleConfig ''gotify'' ''upload'' 1000 ''2024-01-05''))
   \<and> TotalReceive (Statistics (accumulate \<lparr>ReceiveBytes = 3, TransmitBytes = 59\<rparr>
        (exampleConfig ''gotify'' ''upload'' 1000 ''2024-01-05''))) = 1003
   \<and> TotalTransmit (Statistics (accumulate \<lparr>ReceiveBytes = 3, TransmitBytes = 59\<rparr>
        (exampleConfig ''gotify'' ''upload'' 1000 ''2024-01-05''))) = 59"
  using reset_fold_then_delta_nets_to_sample [of "\<lparr>ReceiveBytes = 3, TransmitBytes = 59\<rparr>"
      "exampleConfig ''gotify'' ''upload'' 1000 ''2024-01-05''"]
  by (simp add: exampleConfig_def)

text \<open>
  Claim C3. When the received values of the samples never go down and the first is not
  below \<open>LastReceive\<close>, the total after all the ticks is the total before plus the sum of
  the consecutive differences, and that is the total before plus the last sample's value
  minus the first baseline. As numbers the differences add up to \<open>final - baseline\<close>
  with no wrap-around; the total itself is kept modulo \<open>2 ^ 64\<close>.
\<close>

theorem monotonic_accrual:
  assumes "sorted (LastReceive (Statistics config) # map ReceiveBytes xs)"
  shows "TotalReceive (Statistics (accumulate_all xs config))
           = TotalReceive (Statistics config)
               + sum_list (consecutive_deltas (LastReceive (Statistics config))
                    (map ReceiveBytes xs))
       \<and> TotalReceive (Statistics (accumulate_all xs config))
           = TotalReceive (Statistics config)
               + (last (LastReceive (Statistics config) # map ReceiveBytes xs)
                    - LastReceive (Statistics config))
       \<and> sum_list (map unat (consecutive_deltas (LastReceive (Statistics config))
              (map ReceiveBytes xs)))
           = unat (last (LastReceive (Statistics config) # map ReceiveBytes xs))
               - unat (LastReceive (Statistics config))"
  using accumulate_all_no_reset [OF assms] consecutive_deltas_telescope [OF assms]
    consecutive_deltas_telescope_nat [OF assms]
  by simp

theorem monotonic_accrual_witness:
  "sorted (LastReceive (Statistics (exampleConfig ''telegram'' ''download'' 100 ''2024-01-05''))
      # map ReceiveBytes [\<lparr>ReceiveBytes = 60, TransmitBytes = 0\<rparr>,
          \<lparr>ReceiveBytes = 60, TransmitBytes = 5\<rparr>, \<lparr>ReceiveBytes = 75, TransmitBytes = 1\<rparr>])
   \<and> TotalReceive (Statistics (accumulate_all [\<lparr>ReceiveBytes = 60, TransmitBytes = 0\<rparr>,
          \<lparr>ReceiveBytes = 60, TransmitBytes = 5\<rparr>, \<lparr>ReceiveBytes = 75, TransmitBytes = 1\<rparr>]
        (exampleConfig ''telegram'' ''download'' 100 ''2024-01-05''))) = 125"
proof -
  have s: "sorted (LastReceive (Statistics (exampleConfig ''telegram'' ''download'' 100 ''2024-01-05''))
      # map ReceiveBytes [\<lparr>ReceiveBytes = 60, TransmitBytes = 0\<rparr>,
          \<lparr>ReceiveBytes = 60, TransmitBytes = 5\<rparr>, \<lparr>ReceiveBytes = 75, TransmitBytes = 1\<rparr>])"
    by (simp add: exampleConfig_def)
  show ?thesis
    using s monotonic_accrual [OF s] by (simp add: exampleConfig_def)
qed

section \<open>Properties of the alerts\<close>

lemma trace_emit: "trace (emit e w) = trace w @ [e]"
  and http_results_emit: "http_results (emit e w) = http_results w"
  and has_shutdown_emit: "has_shutdown (emit e w) = has_shutdown w"
  by (simp_all add: emit_def)

lemma trace_saveConfig: "trace (saveConfig c w) = trace w @ [SaveConfig]"
  and http_results_saveConfig: "http_results (saveConfig c w) = http_results w"
  by (simp_all add: saveConfig_def emit_def)

lemma httpDo_trace:
  "trace (snd (httpDo s m w)) = trace w @ [HttpPost s m]"
  by (simp add: httpDo_def emit_def split: list.splits)

lemma sendMessage_trace:
  "trace (snd (sendMessage c m w)) =
     trace w @ SendMessage m #
       (if knownService (Service (Message c)) then [HttpPost (Service (Message c)) m] else [])"
  by (auto simp: sendMessage_def sendTelegramMessage_def sendGotifyMessage_def knownService_def
        Let_def httpDo_def emit_def split: list.splits http_outcome.splits)

lemma sendMessage_unknown:
  "\<not> knownService (Service (Message c)) \<Longrightarrow>
     sendMessage c m w = (Some (UnknownMessageService (Service (Message c))), emit (SendMessage m) w)"
  by (simp add: sendMessage_def knownService_def Let_def split: if_splits)

text \<open>What the flag setters, the two blocks and the accumulation step leave alone.\<close>

lemma setThresholdStatus_frame:
  "Service (Message (setThresholdStatus c)) = Service (Message c)"
  "Statistics (setThresholdStatus c) = Statistics c"
  "StartDay (setThresholdStatus c) = StartDay c"
  "Comparison (setThresholdStatus c) = Comparison c"
  "ratioStatus (setThresholdStatus c) = ratioStatus c"
  "thresholdStatus c \<Longrightarrow> thresholdStatus (setThresholdStatus c)"
  by (auto simp: setThresholdStatus_def ratioStatus_def thresholdStatus_def split: if_splits)

lemma setRatioStatus_frame:
  "Service (Message (setRatioStatus c)) = Service (Message c)"
  "Statistics (setRatioStatus c) = Statistics c"
  "StartDay (setRatioStatus c) = StartDay c"
  "Comparison (setRatioStatus c) = Comparison c"
  "thresholdStatus (setRatioStatus c) = thresholdStatus c"
  "ratioStatus c \<Longrightarrow> ratioStatus (setRatioStatus c)"
  by (auto simp: setRatioStatus_def ratioStatus_def thresholdStatus_def split: if_splits)

lemma thresholdBlock_config:
  "fst (thresholdBlock ops v tlim ts c w) = c \<or> fst (thresholdBlock ops v tlim ts c w) = setThresholdStatus c"
  by (simp add: thresholdBlock_def split: prod.splits option.splits)

lemma ratioBlock_config:
  "fst (ratioBlock ops v rlim rs c w) = c \<or> fst (ratioBlock ops v rlim rs c w) = setRatioStatus c"
  by (simp add: ratioBlock_def Let_def split: prod.splits option.splits)

lemma thresholdBlock_frame:
  "Service (Message (fst (thresholdBlock ops v tlim ts c w))) = Service (Message c)"
  "Statistics (fst (thresholdBlock ops v tlim ts c w)) = Statistics c"
  "StartDay (fst (thresholdBlock ops v tlim ts c w)) = StartDay c"
  "Comparison (fst (thresholdBlock ops v tlim ts c w)) = Comparison c"
  "ratioStatus (fst (thresholdBlock ops v tlim ts c w)) = ratioStatus c"
  "thresholdStatus c \<Longrightarrow> thresholdStatus (fst (thresholdBlock ops v tlim ts c w))"
  using thresholdBlock_config [of ops v tlim ts c w]
  by (auto simp: setThresholdStatus_frame)

lemma ratioBlock_frame:
  "Service (Message (fst (ratioBlock ops v rlim rs c w))) = Service (Message c)"
  "Statistics (fst (ratioBlock ops v rlim rs c w)) = Statistics c"
  "StartDay (fst (ratioBlock ops v rlim rs c w)) = StartDay c"
  "Comparison (fst (ratioBlock ops v rlim rs c w)) = Comparison c"
  "thresholdStatus (fst (ratioBlock ops v rlim rs c w)) = thresholdStatus c"
  "ratioStatus c \<Longrightarrow> ratioStatus (fst (ratioBlock ops v rlim rs c w))"
  using ratioBlock_config [of ops v rlim rs c w]
  by (auto simp: setRatioStatus_frame)

lemma performComparison_frame:
  "Service (Message (fst (snd (performComparison ops c w)))) = Service (Message c)"
  "Statistics (fst (snd (performComparison ops c w))) = Statistics c"
  "StartDay (fst (snd (performComparison ops c w))) = StartDay c"
  "Comparison (fst (snd (performComparison ops c w))) = Comparison c"
  "thresholdStatus c \<Longrightarrow> thresholdStatus (fst (snd (performComparison ops c w)))"
  "ratioStatus c \<Longrightarrow> ratioStatus (fst (snd (performComparison ops c w)))"
  by (simp_all add: performComparison_def Let_def thresholdBlock_frame ratioBlock_frame
        split: sum.splits)

lemma accumulate_frame:
  "Message (accumulate stats c) = Message c"
  "StartDay (accumulate stats c) = StartDay c"
  "Comparison (accumulate stats c) = Comparison c"
  "LastReset (Statistics (accumulate stats c)) = LastReset (Statistics c)"
  "Device (accumulate stats c) = Device c"
  by (simp_all add: accumulate_def Let_def)

lemma accumulate_status:
  "thresholdStatus (accumulate stats c) = thresholdStatus c"
  "ratioStatus (accumulate stats c) = ratioStatus c"
  by (simp_all add: thresholdStatus_def ratioStatus_def accumulate_frame)

text \<open>Neither block calls the notifier with the other block's message.\<close>

lemma thresholdBlock_ratio_sends:
  "filter isRatioSend (trace (snd (thresholdBlock ops v tlim ts c w))) = filter isRatioSend (trace w)"
proof -
  have "filter isRatioSend (trace (snd (sendMessage c (thresholdMessage ops v c) w)))
          = filter isRatioSend (trace w)"
    by (simp add: sendMessage_trace thresholdMessage_def)
  then show ?thesis
    by (auto simp: thresholdBlock_def trace_emit trace_saveConfig split: prod.splits option.splits)
qed

lemma thresholdBlock_skipped:
  "thresholdBlock ops v tlim True c w = (c, w)"
  by (simp add: thresholdBlock_def)

lemma ratioBlock_skipped:
  "ratioBlock ops v rlim True c w = (c, w)"
  by (simp add: ratioBlock_def)

lemma ratioBlock_threshold_sends:
  "filter isThresholdSend (trace (snd (ratioBlock ops v rlim rs c w))) = filter isThresholdSend (trace w)"
proof -
  have "filter isThresholdSend (trace (snd (sendMessage c (ratioMessage ops v c) w)))
          = filter isThresholdSend (trace w)"
    by (simp add: sendMessage_trace ratioMessage_def)
  then show ?thesis
    by (auto simp: ratioBlock_def Let_def trace_emit trace_saveConfig split: prod.splits option.splits)
qed

lemma performComparison_threshold_sends:
  "thresholdStatus c \<Longrightarrow>
     filter isThresholdSend (trace (snd (snd (performComparison ops c w)))) = filter isThresholdSend (trace w)"
  by (simp add: performComparison_def Let_def ratioBlock_threshold_sends thresholdBlock_skipped
        split: sum.splits)

lemma performComparison_ratio_sends:
  "ratioStatus c \<Longrightarrow>
     filter isRatioSend (trace (snd (snd (performComparison ops c w)))) = filter isRatioSend (trace w)"
  by (simp add: performComparison_def Let_def thresholdBlock_ratio_sends ratioBlock_skipped
        split: sum.splits)

lemma checkReset_cong:
  assumes "LastReset (Statistics c) = LastReset (Statistics c')" and "StartDay c = StartDay c'"
  shows "checkReset t c = checkReset t c'"
  unfolding checkReset_def assms by (rule refl)

lemma loopBody_no_reset:
  assumes "\<not> checkReset (checkTime r) c"
  shows "LastReset (Statistics (fst (loopBody ops r (c, w)))) = LastReset (Statistics c)"
    and "StartDay (fst (loopBody ops r (c, w))) = StartDay c"
    and "thresholdStatus c \<Longrightarrow> thresholdStatus (fst (loopBody ops r (c, w)))"
    and "ratioStatus c \<Longrightarrow> ratioStatus (fst (loopBody ops r (c, w)))"
    and "thresholdStatus c \<Longrightarrow>
           filter isThresholdSend (trace (snd (loopBody ops r (c, w)))) = filter isThresholdSend (trace w)"
    and "ratioStatus c \<Longrightarrow>
           filter isRatioSend (trace (snd (loopBody ops r (c, w)))) = filter isRatioSend (trace w)"
  using assms
  by (simp_all add: loopBody_def Let_def performComparison_frame accumulate_frame accumulate_status
        performComparison_threshold_sends performComparison_ratio_sends trace_emit trace_saveConfig
        split: option.splits)

text \<open>
  Claim C5. Over any number of rounds of the main loop in which \<open>checkReset\<close> stays
  false (one cycle), a status flag of the configured service that is set stays set, so it
  goes from false to true at most once; and from the round on in which the threshold flag
  is set, the notifier is not called with the threshold message again, however high the
  usage is. The same holds for the shutdown warning and its flag.
\<close>

theorem alert_flags_fire_once:
  assumes "\<forall>r \<in> set rs. \<not> checkReset (checkTime r) config"
  shows "(thresholdStatus config \<longrightarrow>
            thresholdStatus (fst (mainLoop ops rs (config, w)))
            \<and> filter isThresholdSend (trace (snd (mainLoop ops rs (config, w))))
                = filter isThresholdSend (trace w))
       \<and> (ratioStatus config \<longrightarrow>
            ratioStatus (fst (mainLoop ops rs (config, w)))
            \<and> filter isRatioSend (trace (snd (mainLoop ops rs (config, w))))
                = filter isRatioSend (trace w))"
  using assms
proof (induction rs arbitrary: config w)
  case Nil
  then show ?case by simp
next
  case (Cons r rs)
  obtain c1 w1 where step: "loopBody ops r (config, w) = (c1, w1)"
    by (cases "loopBody ops r (config, w)")
  have nr: "\<not> checkReset (checkTime r) config"
    using Cons.prems by simp
  have same: "LastReset (Statistics c1) = LastReset (Statistics config)" "StartDay c1 = StartDay config"
    using loopBody_no_reset(1,2) [OF nr, of ops w] step by simp_all
  have "\<forall>r \<in> set rs. \<not> checkReset (checkTime r) c1"
    using Cons.prems checkReset_cong [OF same] by simp
  from Cons.IH [OF this, of w1] loopBody_no_reset(3-6) [OF nr, of ops w] step
  show ?case by simp
qed

lemma january_no_reset:
  "\<not> checkReset (noon 2024 1 20 28800)
       (setRatioStatus (setThresholdStatus
          (exampleConfig ''telegram'' ''download'' 85899345920 ''2024-01-05'')))"
  by code_simp

theorem alert_flags_fire_once_witness:
  "\<not> checkReset (noon 2024 1 20 28800)
       (setRatioStatus (setThresholdStatus
          (exampleConfig ''telegram'' ''download'' 85899345920 ''2024-01-05'')))
   \<and> thresholdStatus (fst (mainLoop exactOps
         [\<lparr>checkTime = noon 2024 1 20 28800, resetTime = noon 2024 1 20 28800,
            netStats = Some \<lparr>ReceiveBytes = 50, TransmitBytes = 60\<rparr>\<rparr>,
          \<lparr>checkTime = noon 2024 1 20 28800, resetTime = noon 2024 1 20 28800,
            netStats = None\<rparr>]
         (setRatioStatus (setThresholdStatus
            (exampleConfig ''telegram'' ''download'' 85899345920 ''2024-01-05'')),
          exampleWorld [Response 200])))
   \<and> ratioStatus (fst (mainLoop exactOps
         [\<lparr>checkTime = noon 2024 1 20 28800, resetTime = noon 2024 1 20 28800,
            netStats = Some \<lparr>ReceiveBytes = 50, TransmitBytes = 60\<rparr>\<rparr>,
          \<lparr>checkTime = noon 2024 1 20 28800, resetTime = noon 2024 1 20 28800,
            netStats = None\<rparr>]
         (setRatioStatus (setThresholdStatus
            (exampleConfig ''telegram'' ''download'' 85899345920 ''2024-01-05'')),
          exampleWorld [Response 200])))
   \<and> filter isThresholdSend (trace (snd (mainLoop exactOps
         [\<lparr>checkTime = noon 2024 1 20 28800, resetTime = noon 2024 1 20 28800,
            netStats = Some \<lparr>ReceiveBytes = 50, TransmitBytes = 60\<rparr>\<rparr>,
          \<lparr>checkTime = noon 2024 1 20 28800, resetTime = noon 2024 1 20 28800,
            netStats = None\<rparr>]
         (setRatioStatus (setThresholdStatus
            (exampleConfig ''telegram'' ''download'' 85899345920 ''2024-01-05'')),
          exampleWorld [Response 200])))) = []
   \<and> filter isRatioSend (trace (snd (mainLoop exactOps
         [\<lparr>checkTime = noon 2024 1 20 28800, resetTime = noon 2024 1 20 28800,
            netStats = Some \<lparr>ReceiveBytes = 50, TransmitBytes = 60\<rparr>\<rparr>,
          \<lparr>checkTime = noon 2024 1 20 28800, resetTime = noon 2024 1 20 28800,
            netStats = None\<rparr>]
         (setRatioStatus (setThresholdStatus
            (exampleConfig ''telegram'' ''download'' 85899345920 ''2024-01-05'')),
          exampleWorld [Response 200])))) = []"
proof -
  let ?c = "setRatioStatus (setThresholdStatus
          (exampleConfig ''telegram'' ''download'' 85899345920 ''2024-01-05''))"
  let ?rs = "[\<lparr>checkTime = noon 2024 1 20 28800, resetTime = noon 2024 1 20 28800,
                netStats = Some \<lparr>ReceiveBytes = 50, TransmitBytes = 60\<rparr>\<rparr>,
              \<lparr>checkTime = noon 2024 1 20 28800, resetTime = noon 2024 1 20 28800,
                netStats = None\<rparr>]"
  have h: "\<forall>r \<in> set ?rs. \<not> checkReset (checkTime r) ?c"
    using january_no_reset by simp
  have t: "thresholdStatus ?c" "ratioStatus ?c"
    by (simp_all add: thresholdStatus_def ratioStatus_def setThresholdStatus_def
          setRatioStatus_def exampleConfig_def)
  show ?thesis
    using january_no_reset t
      alert_flags_fire_once [OF h, of exactOps "exampleWorld [Response 200]"]
    by (simp add: exampleWorld_def)
qed

lemma setThresholdStatus_sendMessage:
  "sendMessage (setThresholdStatus c) m w = sendMessage c m w"
  by (simp add: sendMessage_def setThresholdStatus_def)

lemma thresholdBlock_sendMessage:
  "sendMessage (fst (thresholdBlock ops v tlim ts c w)) m w' = sendMessage c m w'"
  using thresholdBlock_config [of ops v tlim ts c w]
  by (auto simp: setThresholdStatus_sendMessage)

lemma ratioMessage_cong:
  "Comparison c = Comparison c' \<Longrightarrow> ratioMessage ops v c = ratioMessage ops v c'"
  by (simp add: ratioMessage_def)

lemma thresholdBlock_shutdown:
  "filter isShutdown (trace (snd (thresholdBlock ops v tlim ts c w))) = filter isShutdown (trace w)"
proof -
  have "filter isShutdown (trace (snd (sendMessage c (thresholdMessage ops v c) w)))
          = filter isShutdown (trace w)"
    by (simp add: sendMessage_trace)
  then show ?thesis
    by (auto simp: thresholdBlock_def trace_emit trace_saveConfig split: prod.splits option.splits)
qed

lemma ratioBlock_failed:
  assumes "fge ops v rlim" and "\<not> rs" and "fst (sendMessage c (ratioMessage ops v c) w) \<noteq> None"
  shows "fst (ratioBlock ops v rlim rs c w) = c"
    and "filter isShutdown (trace (snd (ratioBlock ops v rlim rs c w))) = filter isShutdown (trace w)"
proof -
  obtain e w1 where s: "sendMessage c (ratioMessage ops v c) w = (Some e, w1)"
    using assms(3) by (cases "sendMessage c (ratioMessage ops v c) w") auto
  have "trace w1 = trace (snd (sendMessage c (ratioMessage ops v c) w))"
    using s by simp
  then have t: "filter isShutdown (trace w1) = filter isShutdown (trace w)"
    by (simp add: sendMessage_trace)
  show "fst (ratioBlock ops v rlim rs c w) = c"
    using assms(1,2) s by (simp add: ratioBlock_def)
  show "filter isShutdown (trace (snd (ratioBlock ops v rlim rs c w))) = filter isShutdown (trace w)"
    using assms(1,2) s t by (simp add: ratioBlock_def trace_emit)
qed

lemma thresholdBlock_failed:
  assumes "fge ops v tlim" and "\<not> ts" and "fst (sendMessage c (thresholdMessage ops v c) w) \<noteq> None"
  shows "fst (thresholdBlock ops v tlim ts c w) = c"
proof -
  obtain e w1 where s: "sendMessage c (thresholdMessage ops v c) w = (Some e, w1)"
    using assms(3) by (cases "sendMessage c (thresholdMessage ops v c) w") auto
  show ?thesis
    using assms(1,2) s by (simp add: thresholdBlock_def)
qed

lemma ratioBlock_fires:
  assumes "fge ops v rlim" and "\<not> rs"
  shows "filter isRatioSend (trace (snd (ratioBlock ops v rlim rs c w)))
           = filter isRatioSend (trace w) @ [SendMessage (ratioMessage ops v c)]"
proof -
  have "filter isRatioSend (trace (snd (sendMessage c (ratioMessage ops v c) w)))
          = filter isRatioSend (trace w) @ [SendMessage (ratioMessage ops v c)]"
    by (simp add: sendMessage_trace ratioMessage_def)
  then show ?thesis
    using assms
    by (auto simp: ratioBlock_def Let_def trace_emit trace_saveConfig split: prod.splits option.splits)
qed

lemma thresholdBlock_fires:
  assumes "fge ops v tlim" and "\<not> ts"
  shows "filter isThresholdSend (trace (snd (thresholdBlock ops v tlim ts c w)))
           = filter isThresholdSend (trace w) @ [SendMessage (thresholdMessage ops v c)]"
proof -
  have "filter isThresholdSend (trace (snd (sendMessage c (thresholdMessage ops v c) w)))
          = filter isThresholdSend (trace w) @ [SendMessage (thresholdMessage ops v c)]"
    by (simp add: sendMessage_trace thresholdMessage_def)
  then show ?thesis
    using assms
    by (auto simp: thresholdBlock_def trace_emit trace_saveConfig split: prod.splits option.splits)
qed

lemma performComparison_sends_ratio:
  assumes "valueInGB ops c = Inr v" and "fge ops v (ratioLimit ops c)" and "\<not> ratioStatus c"
  shows "filter isRatioSend (trace (snd (snd (performComparison ops c w))))
           = filter isRatioSend (trace w) @ [SendMessage (ratioMessage ops v c)]"
proof -
  have "ratioMessage ops v (fst (thresholdBlock ops v (thresholdLimit ops c) (thresholdStatus c) c w))
          = ratioMessage ops v c"
    by (rule ratioMessage_cong) (simp add: thresholdBlock_frame)
  then show ?thesis
    using assms
    by (simp add: performComparison_def Let_def ratioBlock_fires thresholdBlock_ratio_sends)
qed

lemma performComparison_sends_threshold:
  assumes "valueInGB ops c = Inr v" and "fge ops v (thresholdLimit ops c)" and "\<not> thresholdStatus c"
  shows "filter isThresholdSend (trace (snd (snd (performComparison ops c w))))
           = filter isThresholdSend (trace w) @ [SendMessage (thresholdMessage ops v c)]"
  using assms
  by (simp add: performComparison_def Let_def thresholdBlock_fires ratioBlock_threshold_sends)

text \<open>
  Claim C6. Take a call of \<open>performComparison\<close> with a valid category. If the usage has
  reached the shutdown limit, the shutdown flag of the configured service is not set, and
  the \<open>sendMessage\<close> of the shutdown warning (made in the world that the threshold
  block leaves behind) returns an error, then the flag is still
  not set afterwards and no command has been run; and in the next round, for any sample
  and whatever else happened outside, if the usage is still at or above the limit then
  \<open>sendMessage\<close> is called with the shutdown warning again. The threshold alert behaves
  the same way: a failed send leaves its flag unset and the next round sends again.
\<close>

theorem failed_delivery_is_retried:
  assumes "valueInGB ops config = Inr v"
  shows
    "(fge ops v (ratioLimit ops config) \<and> \<not> ratioStatus config
        \<and> fst (sendMessage config (ratioMessage ops v config)
                 (snd (thresholdBlock ops v (thresholdLimit ops config)
                         (thresholdStatus config) config w))) \<noteq> None
      \<longrightarrow> \<not> ratioStatus (fst (snd (performComparison ops config w)))
          \<and> filter isShutdown (trace (snd (snd (performComparison ops config w))))
              = filter isShutdown (trace w)
          \<and> (\<forall>stats w' v'.
                valueInGB ops (accumulate stats (fst (snd (performComparison ops config w)))) = Inr v'
                \<and> fge ops v' (ratioLimit ops config)
                \<longrightarrow> filter isRatioSend (trace (snd (snd (performComparison ops
                        (accumulate stats (fst (snd (performComparison ops config w)))) w'))))
                    = filter isRatioSend (trace w') @ [SendMessage (ratioMessage ops v' config)]))
   \<and> (fge ops v (thresholdLimit ops config) \<and> \<not> thresholdStatus config
        \<and> fst (sendMessage config (thresholdMessage ops v config) w) \<noteq> None
      \<longrightarrow> \<not> thresholdStatus (fst (snd (performComparison ops config w)))
          \<and> (\<forall>stats w' v'.
                valueInGB ops (accumulate stats (fst (snd (performComparison ops config w)))) = Inr v'
                \<and> fge ops v' (thresholdLimit ops config)
                \<longrightarrow> filter isThresholdSend (trace (snd (snd (performComparison ops
                        (accumulate stats (fst (snd (performComparison ops config w)))) w'))))
                    = filter isThresholdSend (trace w') @ [SendMessage (thresholdMessage ops v' config)]))"
proof (intro conjI impI)
  let ?c1 = "fst (thresholdBlock ops v (thresholdLimit ops config) (thresholdStatus config) config w)"
  let ?w1 = "snd (thresholdBlock ops v (thresholdLimit ops config) (thresholdStatus config) config w)"
  let ?c2 = "fst (snd (performComparison ops config w))"
  let ?w2 = "snd (snd (performComparison ops config w))"
  have c2: "?c2 = fst (ratioBlock ops v (ratioLimit ops config) (ratioStatus config) ?c1 ?w1)"
    and w2: "?w2 = snd (ratioBlock ops v (ratioLimit ops config) (ratioStatus config) ?c1 ?w1)"
    using assms by (simp_all add: performComparison_def Let_def)
  have comp: "Comparison ?c2 = Comparison config"
    by (simp add: performComparison_frame)
  {
    assume a: "fge ops v (ratioLimit ops config) \<and> \<not> ratioStatus config
        \<and> fst (sendMessage config (ratioMessage ops v config) ?w1) \<noteq> None"
    have m: "ratioMessage ops v ?c1 = ratioMessage ops v config"
      by (rule ratioMessage_cong) (simp add: thresholdBlock_frame)
    have f: "fst (sendMessage ?c1 (ratioMessage ops v ?c1) ?w1) \<noteq> None"
      using a by (simp add: m thresholdBlock_sendMessage)
    have "?c2 = ?c1"
      using a c2 by (simp add: ratioBlock_failed(1) [OF _ _ f])
    then show r: "\<not> ratioStatus ?c2"
      using a by (simp add: thresholdBlock_frame)
    show "filter isShutdown (trace ?w2) = filter isShutdown (trace w)"
      using a w2 ratioBlock_failed(2) [OF _ _ f, of "ratioLimit ops config" "ratioStatus config"]
      by (simp add: thresholdBlock_shutdown)
    show "\<forall>stats w' v'. valueInGB ops (accumulate stats ?c2) = Inr v'
                \<and> fge ops v' (ratioLimit ops config)
                \<longrightarrow> filter isRatioSend (trace (snd (snd (performComparison ops (accumulate stats ?c2) w'))))
                    = filter isRatioSend (trace w') @ [SendMessage (ratioMessage ops v' config)]"
    proof (intro allI impI)
      fix stats w' v'
      assume b: "valueInGB ops (accumulate stats ?c2) = Inr v' \<and> fge ops v' (ratioLimit ops config)"
      have l: "ratioLimit ops (accumulate stats ?c2) = ratioLimit ops config"
        by (simp add: ratioLimit_def accumulate_frame comp)
      have mm: "ratioMessage ops v' (accumulate stats ?c2) = ratioMessage ops v' config"
        by (rule ratioMessage_cong) (simp add: accumulate_frame comp)
      show "filter isRatioSend (trace (snd (snd (performComparison ops (accumulate stats ?c2) w'))))
                    = filter isRatioSend (trace w') @ [SendMessage (ratioMessage ops v' config)]"
        using performComparison_sends_ratio [of ops "accumulate stats ?c2" v' w'] b r
        by (simp add: l mm accumulate_status)
    qed
  }
  {
    assume a: "fge ops v (thresholdLimit ops config) \<and> \<not> thresholdStatus config
        \<and> fst (sendMessage config (thresholdMessage ops v config) w) \<noteq> None"
    have "?c1 = config"
      using a by (simp add: thresholdBlock_failed)
    then show t: "\<not> thresholdStatus ?c2"
      using a c2 by (simp add: ratioBlock_frame)
    show "\<forall>stats w' v'. valueInGB ops (accumulate stats ?c2) = Inr v'
                \<and> fge ops v' (thresholdLimit ops config)
                \<longrightarrow> filter isThresholdSend (trace (snd (snd (performComparison ops (accumulate stats ?c2) w'))))
                    = filter isThresholdSend (trace w') @ [SendMessage (thresholdMessage ops v' config)]"
    proof (intro allI impI)
      fix stats w' v'
      assume b: "valueInGB ops (accumulate stats ?c2) = Inr v' \<and> fge ops v' (thresholdLimit ops config)"
      have l: "thresholdLimit ops (accumulate stats ?c2) = thresholdLimit ops config"
        by (simp add: thresholdLimit_def accumulate_frame comp)
      have mm: "thresholdMessage ops v' (accumulate stats ?c2) = thresholdMessage ops v' config"
        by (simp add: thresholdMessage_def accumulate_frame comp)
      show "filter isThresholdSend (trace (snd (snd (performComparison ops (accumulate stats ?c2) w'))))
                    = filter isThresholdSend (trace w') @ [SendMessage (thresholdMessage ops v' config)]"
        using performComparison_sends_threshold [of ops "accumulate stats ?c2" v' w'] b t
        by (simp add: l mm accumulate_status)
    qed
  }
qed

text \<open>The definitions a concrete run unfolds.\<close>

lemmas example_defs = exampleConfig_def exampleWorld_def exactOps_def valueInGB_def bytesToGB_def
  thresholdLimit_def ratioLimit_def thresholdStatus_def ratioStatus_def thresholdBlock_def ratioBlock_def
  sendMessage_def sendGotifyMessage_def sendTelegramMessage_def httpDo_def emit_def
  thresholdMessage_def ratioMessage_def performComparison_def accumulate_def Let_def saveConfig_def

theorem failed_delivery_is_retried_witness:
  "valueInGB exactOps (exampleConfig ''gotify'' ''download'' 85899345920 ''2024-01-05'') = Inr 80
   \<and> fst (sendMessage (exampleConfig ''gotify'' ''download'' 85899345920 ''2024-01-05'')
        (thresholdMessage exactOps 80 (exampleConfig ''gotify'' ''download'' 85899345920 ''2024-01-05''))
        (exampleWorld [Response 500, TransportError])) = Some (GotifyErrorStatus 500)
   \<and> \<not> ratioStatus (fst (snd (performComparison exactOps
        (exampleConfig ''gotify'' ''download'' 85899345920 ''2024-01-05'')
        (exampleWorld [Response 500, TransportError]))))
   \<and> \<not> thresholdStatus (fst (snd (performComparison exactOps
        (exampleConfig ''gotify'' ''download'' 85899345920 ''2024-01-05'')
        (exampleWorld [Response 500, TransportError]))))
   \<and> filter isShutdown (trace (snd (snd (performComparison exactOps
        (exampleConfig ''gotify'' ''download'' 85899345920 ''2024-01-05'')
        (exampleWorld [Response 500, TransportError]))))) = []
   \<and> filter isRatioSend (trace (snd (snd (performComparison exactOps
        (accumulate \<lparr>ReceiveBytes = 50, TransmitBytes = 60\<rparr>
           (fst (snd (performComparison exactOps
              (exampleConfig ''gotify'' ''download'' 85899345920 ''2024-01-05'')
              (exampleWorld [Response 500, TransportError])))))
        (exampleWorld [Response 200])))))
     = [SendMessage (RatioWarningMessage 80 75)]"
proof -
  let ?c = "exampleConfig ''gotify'' ''download'' 85899345920 ''2024-01-05''"
  let ?w = "exampleWorld [Response 500, TransportError]"
  have v: "valueInGB exactOps ?c = Inr 80"
    by (simp add: example_defs)
  have t: "fst (sendMessage ?c (thresholdMessage exactOps 80 ?c) ?w) = Some (GotifyErrorStatus 500)"
    by (simp add: example_defs)
  have r: "fst (sendMessage ?c (ratioMessage exactOps 80 ?c)
             (snd (thresholdBlock exactOps 80 (thresholdLimit exactOps ?c) (thresholdStatus ?c) ?c ?w)))
           \<noteq> None"
    by (simp add: example_defs)
  have lims: "fge exactOps 80 (ratioLimit exactOps ?c)" "\<not> ratioStatus ?c"
    "fge exactOps 80 (thresholdLimit exactOps ?c)" "\<not> thresholdStatus ?c"
    by (simp_all add: example_defs)
  have next_v: "valueInGB exactOps (accumulate \<lparr>ReceiveBytes = 50, TransmitBytes = 60\<rparr>
      (fst (snd (performComparison exactOps ?c ?w)))) = Inr 80"
    by (simp add: example_defs)
  have msg: "ratioMessage exactOps 80 ?c = RatioWarningMessage 80 75"
    by (simp add: example_defs)
  have tr: "trace ?w = []" "trace (exampleWorld [Response 200]) = []"
    by (simp_all add: exampleWorld_def)
  from failed_delivery_is_retried [OF v, of ?w] r t lims
  have "\<not> ratioStatus (fst (snd (performComparison exactOps ?c ?w)))"
    and "\<not> thresholdStatus (fst (snd (performComparison exactOps ?c ?w)))"
    and "filter isShutdown (trace (snd (snd (performComparison exactOps ?c ?w)))) = filter isShutdown (trace ?w)"
    and "\<forall>stats w' v'.
                valueInGB exactOps (accumulate stats (fst (snd (performComparison exactOps ?c ?w)))) = Inr v'
                \<and> fge exactOps v' (ratioLimit exactOps ?c)
                \<longrightarrow> filter isRatioSend (trace (snd (snd (performComparison exactOps
                        (accumulate stats (fst (snd (performComparison exactOps ?c ?w)))) w'))))
                    = filter isRatioSend (trace w') @ [SendMessage (ratioMessage exactOps v' ?c)]"
    by simp_all
  with v t next_v lims msg tr show ?thesis
    by simp
qed

section \<open>Configuration errors\<close>

lemma valueInGB_invalid:
  "\<not> validCategory (Category (Comparison c)) \<Longrightarrow>
     valueInGB ops c = Inl (InvalidComparisonCategory (Category (Comparison c)))"
  by (simp add: valueInGB_def validCategory_def Let_def split: if_splits)

lemma thresholdBlock_unknown:
  assumes "\<not> knownService (Service (Message c))"
  shows "thresholdBlock ops v tlim False c w =
           (c, if fge ops v tlim
               then emit (Printf (FailedThresholdMessage (UnknownMessageService (Service (Message c)))))
                      (emit (SendMessage (thresholdMessage ops v c)) w)
               else w)"
  by (simp add: thresholdBlock_def sendMessage_unknown [OF assms])

lemma ratioBlock_unknown:
  assumes "\<not> knownService (Service (Message c))"
  shows "ratioBlock ops v rlim False c w =
           (c, if fge ops v rlim
               then emit (Printf (FailedRatioWarning (UnknownMessageService (Service (Message c)))))
                      (emit (SendMessage (ratioMessage ops v c)) w)
               else w)"
  by (simp add: ratioBlock_def sendMessage_unknown [OF assms])

lemma unknown_status:
  "\<not> knownService (Service (Message c)) \<Longrightarrow> \<not> thresholdStatus c"
  "\<not> knownService (Service (Message c)) \<Longrightarrow> \<not> ratioStatus c"
  by (auto simp: knownService_def thresholdStatus_def ratioStatus_def split: if_splits)

text \<open>
  Claim C9, as the code has it. A category other than the four makes
  \<open>performComparison\<close> return the error at once: the configuration and the world are
  as before, so nothing was sent, no flag set and no command run. A service name other
  than the two is found only when a message is to be sent: \<open>performComparison\<close> returns
  no error and goes through both blocks; each block whose limit is reached calls
  \<open>sendMessage\<close>, which fails before any request, and prints the failure. The
  configuration is unchanged, no answer of the network is used up, and no request, write,
  sleep or command is added to the trace.
\<close>

theorem configuration_errors:
  "(\<not> validCategory (Category (Comparison config)) \<longrightarrow>
      performComparison ops config w
        = (Some (InvalidComparisonCategory (Category (Comparison config))), config, w))
   \<and> (valueInGB ops config = Inr v \<and> \<not> knownService (Service (Message config)) \<longrightarrow>
      fst (performComparison ops config w) = None
      \<and> fst (snd (performComparison ops config w)) = config
      \<and> http_results (snd (snd (performComparison ops config w))) = http_results w
      \<and> filter isOutsideAction (trace (snd (snd (performComparison ops config w))))
          = filter isOutsideAction (trace w)
      \<and> filter isPrintf (trace (snd (snd (performComparison ops config w))))
          = filter isPrintf (trace w)
            @ (if fge ops v (thresholdLimit ops config)
               then [Printf (FailedThresholdMessage
                       (UnknownMessageService (Service (Message config))))]
               else [])
            @ (if fge ops v (ratioLimit ops config)
               then [Printf (FailedRatioWarning
                       (UnknownMessageService (Service (Message config))))]
               else []))"
proof (intro conjI impI)
  assume "\<not> validCategory (Category (Comparison config))"
  then show "performComparison ops config w
        = (Some (InvalidComparisonCategory (Category (Comparison config))), config, w)"
    by (simp add: performComparison_def valueInGB_invalid)
next
  assume a: "valueInGB ops config = Inr v \<and> \<not> knownService (Service (Message config))"
  then have u: "\<not> knownService (Service (Message config))" and v: "valueInGB ops config = Inr v"
    by simp_all
  have p: "performComparison ops config w =
      (None, config,
       snd (ratioBlock ops v (ratioLimit ops config) False config
              (snd (thresholdBlock ops v (thresholdLimit ops config) False config w))))"
    using v unknown_status [OF u]
    by (simp add: performComparison_def Let_def thresholdBlock_unknown [OF u] ratioBlock_unknown [OF u])
  show "fst (performComparison ops config w) = None"
    and "fst (snd (performComparison ops config w)) = config"
    by (simp_all add: p)
  show "http_results (snd (snd (performComparison ops config w))) = http_results w"
    by (simp add: p thresholdBlock_unknown [OF u] ratioBlock_unknown [OF u] http_results_emit)
  show "filter isOutsideAction (trace (snd (snd (performComparison ops config w))))
          = filter isOutsideAction (trace w)"
    by (simp add: p thresholdBlock_unknown [OF u] ratioBlock_unknown [OF u] trace_emit)
  show "filter isPrintf (trace (snd (snd (performComparison ops config w))))
          = filter isPrintf (trace w)
            @ (if fge ops v (thresholdLimit ops config)
               then [Printf (FailedThresholdMessage
                       (UnknownMessageService (Service (Message config))))]
               else [])
            @ (if fge ops v (ratioLimit ops config)
               then [Printf (FailedRatioWarning
                       (UnknownMessageService (Service (Message config))))]
               else [])"
    by (simp add: p thresholdBlock_unknown [OF u] ratioBlock_unknown [OF u] trace_emit)
qed

theorem configuration_errors_witness:
  "\<not> validCategory (Category (Comparison (exampleConfig ''telegram'' ''both'' 85899345920 ''2024-01-05'')))
   \<and> performComparison exactOps (exampleConfig ''telegram'' ''both'' 85899345920 ''2024-01-05'')
        (exampleWorld [Response 200])
      = (Some (InvalidComparisonCategory ''both''),
         exampleConfig ''telegram'' ''both'' 85899345920 ''2024-01-05'', exampleWorld [Response 200])
   \<and> valueInGB exactOps (exampleConfig ''sms'' ''download'' 85899345920 ''2024-01-05'') = Inr 80
   \<and> \<not> knownService (Service (Message (exampleConfig ''sms'' ''download'' 85899345920 ''2024-01-05'')))
   \<and> fst (snd (performComparison exactOps (exampleConfig ''sms'' ''download'' 85899345920 ''2024-01-05'')
        (exampleWorld [Response 200])))
      = exampleConfig ''sms'' ''download'' 85899345920 ''2024-01-05''
   \<and> http_results (snd (snd (performComparison exactOps
        (exampleConfig ''sms'' ''download'' 85899345920 ''2024-01-05'') (exampleWorld [Response 200]))))
      = [Response 200]
   \<and> filter isOutsideAction (trace (snd (snd (performComparison exactOps
        (exampleConfig ''sms'' ''download'' 85899345920 ''2024-01-05'') (exampleWorld [Response 200])))))
      = []
   \<and> filter isPrintf (trace (snd (snd (performComparison exactOps
        (exampleConfig ''sms'' ''download'' 85899345920 ''2024-01-05'') (exampleWorld [Response 200])))))
      = [Printf (FailedThresholdMessage (UnknownMessageService ''sms'')),
         Printf (FailedRatioWarning (UnknownMessageService ''sms''))]"
proof -
  have a: "\<not> validCategory (Category (Comparison (exampleConfig ''telegram'' ''both'' 85899345920 ''2024-01-05'')))"
    by (simp add: exampleConfig_def validCategory_def)
  have b: "valueInGB exactOps (exampleConfig ''sms'' ''download'' 85899345920 ''2024-01-05'') = Inr 80"
    by (simp add: example_defs)
  have c: "\<not> knownService (Service (Message (exampleConfig ''sms'' ''download'' 85899345920 ''2024-01-05'')))"
    by (simp add: exampleConfig_def knownService_def)
  have d: "fge exactOps 80 (thresholdLimit exactOps (exampleConfig ''sms'' ''download'' 85899345920 ''2024-01-05''))"
    "fge exactOps 80 (ratioLimit exactOps (exampleConfig ''sms'' ''download'' 85899345920 ''2024-01-05''))"
    by (simp_all add: example_defs)
  have e: "Category (Comparison (exampleConfig ''telegram'' ''both'' 85899345920 ''2024-01-05'')) = ''both''"
    "Service (Message (exampleConfig ''sms'' ''download'' 85899345920 ''2024-01-05'')) = ''sms''"
    "http_results (exampleWorld [Response 200]) = [Response 200]"
    "trace (exampleWorld [Response 200]) = []"
    by (simp_all add: exampleConfig_def exampleWorld_def)
  show ?thesis
    using a b c d
      configuration_errors [where config = "exampleConfig ''telegram'' ''both'' 85899345920 ''2024-01-05''"
        and ops = exactOps and w = "exampleWorld [Response 200]" and v = 80]
      configuration_errors [where config = "exampleConfig ''sms'' ''download'' 85899345920 ''2024-01-05''"
        and ops = exactOps and w = "exampleWorld [Response 200]" and v = 80]
    by (simp add: e)
qed

text \<open>
  Claim C9 as the specification states it fails for the service name: with a service
  \<open>sms\<close> and a usage below both limits, \<open>performComparison\<close> returns no error and
  leaves the trace empty, so the evaluation is not aborted and nothing is reported.
\<close>

theorem unknown_service_not_reported_counterexample:
  "\<not> knownService (Service (Message (exampleConfig ''sms'' ''download'' 0 ''2024-01-05'')))
   \<and> performComparison exactOps (exampleConfig ''sms'' ''download'' 0 ''2024-01-05'')
         (exampleWorld [])
       = (None, exampleConfig ''sms'' ''download'' 0 ''2024-01-05'', exampleWorld [])"
  by (simp add: example_defs knownService_def)

section \<open>Properties of the cycle\<close>

lemma resetStatistics_config:
  "fst (resetStatistics ops now config w) =
     config\<lparr>Statistics := (Statistics config)\<lparr>TotalReceive := 0, TotalTransmit := 0,
                LastReset := Format now\<rparr>,
            Message := (Message config)\<lparr>
                Telegram := (Telegram (Message config))\<lparr>Telegram_ThresholdStatus := False,
                              Telegram_RatioStatus := False\<rparr>,
                Gotify := (Gotify (Message config))\<lparr>Gotify_ThresholdStatus := False,
                            Gotify_RatioStatus := False\<rparr>\<rparr>\<rparr>"
  by (simp add: resetStatistics_def Let_def)

text \<open>
  Claim C7. Whatever the configuration was and whatever the network answers to the summary,
  \<open>resetStatistics\<close> leaves both totals at zero, \<open>LastReset\<close> at the date of the clock
  reading of line 207 in the layout 2006-01-02, and all four status flags false, those of
  the configured service among them. Nothing in the statement depends on the world, so a
  failed summary changes none of it; the example after the theorem is the specification's
  scenario (recorded date 2024-01-05, start day 5, today 2024-02-05) with a summary
  that Gotify answers with status 503.
\<close>

theorem resetStatistics_starts_new_cycle:
  "TotalReceive (Statistics (fst (resetStatistics ops now config w))) = 0
   \<and> TotalTransmit (Statistics (fst (resetStatistics ops now config w))) = 0
   \<and> LastReset (Statistics (fst (resetStatistics ops now config w))) = Format now
   \<and> \<not> Telegram_ThresholdStatus (Telegram (Message (fst (resetStatistics ops now config w))))
   \<and> \<not> Telegram_RatioStatus (Telegram (Message (fst (resetStatistics ops now config w))))
   \<and> \<not> Gotify_ThresholdStatus (Gotify (Message (fst (resetStatistics ops now config w))))
   \<and> \<not> Gotify_RatioStatus (Gotify (Message (fst (resetStatistics ops now config w))))
   \<and> \<not> thresholdStatus (fst (resetStatistics ops now config w))
   \<and> \<not> ratioStatus (fst (resetStatistics ops now config w))"
  by (simp add: resetStatistics_config thresholdStatus_def ratioStatus_def)

lemma summary_fails:
  "fst (sendStatisticsSummary exactOps
          (setRatioStatus (setThresholdStatus
             (exampleConfig ''gotify'' ''upload+download'' 85899345920 ''2024-01-05'')))
          (exampleWorld [Response 503])) = Some (GotifyErrorStatus 503)"
  by (simp add: sendStatisticsSummary_def setRatioStatus_def setThresholdStatus_def example_defs)

lemma february_reset:
  "checkReset (noon 2024 2 5 28800)
     (setRatioStatus (setThresholdStatus
        (exampleConfig ''gotify'' ''upload+download'' 85899345920 ''2024-01-05'')))"
  by code_simp

lemma Format_february: "Format (noon 2024 2 5 28800) = ''2024-02-05''"
  by code_simp

theorem resetStatistics_starts_new_cycle_witness:
  "checkReset (noon 2024 2 5 28800)
     (setRatioStatus (setThresholdStatus
        (exampleConfig ''gotify'' ''upload+download'' 85899345920 ''2024-01-05'')))
   \<and> fst (sendStatisticsSummary exactOps
          (setRatioStatus (setThresholdStatus
             (exampleConfig ''gotify'' ''upload+download'' 85899345920 ''2024-01-05'')))
          (exampleWorld [Response 503])) = Some (GotifyErrorStatus 503)
   \<and> fst (resetStatistics exactOps (noon 2024 2 5 28800)
        (setRatioStatus (setThresholdStatus
           (exampleConfig ''gotify'' ''upload+download'' 85899345920 ''2024-01-05'')))
        (exampleWorld [Response 503]))
      = exampleConfig ''gotify'' ''upload+download'' 0 ''2024-02-05''"
proof -
  let ?c = "setRatioStatus (setThresholdStatus
        (exampleConfig ''gotify'' ''upload+download'' 85899345920 ''2024-01-05''))"
  let ?r = "fst (resetStatistics exactOps (noon 2024 2 5 28800) ?c (exampleWorld [Response 503]))"
  have rest: "Device ?r = ''vps''" "Interface ?r = ''eth0''" "Interval ?r = 600" "StartDay ?r = 5"
    "Comparison ?r = \<lparr>Category = ''upload+download'', Limit = 100, Threshold = 1 / 2, Ratio = 3 / 4\<rparr>"
    "LastReceive (Statistics ?r) = 50" "LastTransmit (Statistics ?r) = 60"
    "Service (Message ?r) = ''gotify''"
    "Token (Telegram (Message ?r)) = ''token''" "ChatID (Telegram (Message ?r)) = ''chat''"
    "URL (Gotify (Message ?r)) = ''http://gotify.example''" "AppToken (Gotify (Message ?r)) = ''app''"
    by (simp_all add: resetStatistics_config setRatioStatus_def setThresholdStatus_def exampleConfig_def)
  have "?r = exampleConfig ''gotify'' ''upload+download'' 0 ''2024-02-05''"
    using resetStatistics_starts_new_cycle [of exactOps "noon 2024 2 5 28800" ?c "exampleWorld [Response 503]"]
      rest Format_february
    by (simp add: exampleConfig_def Config.equality Statistics.equality Message.equality
          TelegramMessage.equality GotifyMessage.equality)
  then show ?thesis
    using february_reset summary_fails by simp
qed

text \<open>
  Claim C10. \<open>resetStatistics\<close> does not touch \<open>LastReceive\<close> and \<open>LastTransmit\<close>,
  so the first accumulation of the new cycle is measured against the sample read before
  the reset: its total is the difference to that sample, or the sample itself when the
  counter restarted, and nothing of the old cycle's total.
\<close>

theorem resetStatistics_keeps_last_counters:
  "LastReceive (Statistics (fst (resetStatistics ops now config w))) = LastReceive (Statistics config)
   \<and> LastTransmit (Statistics (fst (resetStatistics ops now config w)))
       = LastTransmit (Statistics config)
   \<and> TotalReceive (Statistics (accumulate stats (fst (resetStatistics ops now config w))))
       = (if ReceiveBytes stats < LastReceive (Statistics config) then ReceiveBytes stats
          else ReceiveBytes stats - LastReceive (Statistics config))
   \<and> TotalTransmit (Statistics (accumulate stats (fst (resetStatistics ops now config w))))
       = (if TransmitBytes stats < LastTransmit (Statistics config) then TransmitBytes stats
          else TransmitBytes stats - LastTransmit (Statistics config))"
  by (simp add: accumulate_TotalReceive accumulate_TotalTransmit resetStatistics_config)

text \<open>
  What \<open>checkReset\<close> computes, for any clock reading with a month from 1 to 12: true
  when the recorded date does not parse; otherwise whether the recorded instant is before,
  and the clock after, local midnight of the start day, the start day taken no later than
  the last day of the month.
\<close>

lemma normDay_in_month:
  "1 \<le> d \<Longrightarrow> d \<le> daysIn m year \<Longrightarrow> normDay year m d = (year, m, d)"
  by simp

lemma Date_first_of_month:
  assumes "1 \<le> m" and "m \<le> 12"
  shows "Date year m 1 0 0 0 0 loc = \<lparr>Year = year, Month = m, Day = 1, nsecOfDay = 0, zoneOffset = loc\<rparr>"
proof -
  have "(m - 1) div 12 = 0" "(m - 1) mod 12 + 1 = m"
    using assms by simp_all
  moreover have "normDay year m 1 = (year, m, 1)"
    using daysIn_bounds(1) [of m year] by (simp add: normDay_in_month)
  ultimately show ?thesis
    by (simp add: Date_def Let_def del: normDay.simps)
qed

lemma last_day_of_month:
  assumes "1 \<le> m" and "m \<le> 12"
  shows "Day (AddDate (AddDate (Date year m 1 0 0 0 0 loc) 0 1 0) 0 0 (- 1)) = daysIn m year"
proof -
  have step: "AddDate (Date year m 1 0 0 0 0 loc) 0 1 0 = Date year (m + 1) 1 0 0 0 0 loc"
    by (simp add: Date_first_of_month [OF assms] AddDate_def)
  have first: "Date year (m + 1) 1 0 0 0 0 loc
                 = \<lparr>Year = yearOfMonthAfter year m, Month = monthAfter m, Day = 1,
                    nsecOfDay = 0, zoneOffset = loc\<rparr>"
  proof (cases "m = 12")
    case True
    have "normDay (year + 1) 1 1 = (year + 1, 1, 1)"
      using daysIn_bounds(1) [of 1 "year + 1"] by (simp add: normDay_in_month)
    then show ?thesis
      using True
      by (simp add: Date_def Let_def yearOfMonthAfter_def monthAfter_def del: normDay.simps)
  next
    case False
    then have "m div 12 = 0" "m mod 12 = m" using assms by simp_all
    moreover have "normDay year (m + 1) 1 = (year, m + 1, 1)"
      using daysIn_bounds(1) [of "m + 1" year] by (simp add: normDay_in_month)
    ultimately show ?thesis
      using False
      by (simp add: Date_def Let_def yearOfMonthAfter_def monthAfter_def del: normDay.simps)
  qed
  have inv: "monthBefore (monthAfter m) = m"
    "yearOfMonthBefore (yearOfMonthAfter year m) (monthAfter m) = year"
    using assms by (auto simp: monthBefore_def monthAfter_def yearOfMonthBefore_def yearOfMonthAfter_def)
  have rng: "1 \<le> monthAfter m" "monthAfter m \<le> 12"
    using assms by (auto simp: monthAfter_def)
  have "normDay (yearOfMonthAfter year m) (monthAfter m) 0 = normDay year m (daysIn m year)"
    by (subst normDay.simps) (simp add: inv del: normDay.simps)
  also have "\<dots> = (year, m, daysIn m year)"
    using daysIn_bounds(1) [of m year] by (simp add: normDay_in_month del: normDay.simps)
  finally have n: "normDay (yearOfMonthAfter year m) (monthAfter m) 0 = (year, m, daysIn m year)" .
  have dm: "(monthAfter m - 1) div 12 = 0" "(monthAfter m - 1) mod 12 + 1 = monthAfter m"
    using rng by simp_all
  have "AddDate (AddDate (Date year m 1 0 0 0 0 loc) 0 1 0) 0 0 (- 1)
          = AddDate \<lparr>Year = yearOfMonthAfter year m, Month = monthAfter m, Day = 1,
                     nsecOfDay = 0, zoneOffset = loc\<rparr> 0 0 (- 1)"
    by (simp only: step first)
  also have "\<dots> = Date (yearOfMonthAfter year m) (monthAfter m) 0 0 0 0 0 loc"
    by (simp add: AddDate_def)
  also have "\<dots> = \<lparr>Year = year, Month = m, Day = daysIn m year, nsecOfDay = 0, zoneOffset = loc\<rparr>"
    by (simp add: Date_def Let_def dm n del: normDay.simps)
  finally show ?thesis
    by simp
qed

lemma checkReset_unparsed:
  "Parse (LastReset (Statistics config)) = None \<Longrightarrow> checkReset currentTime config"
  by (simp add: checkReset_def)

lemma checkReset_parsed:
  assumes "Parse (LastReset (Statistics config)) = Some lastReset"
    and "1 \<le> Month currentTime" and "Month currentTime \<le> 12"
  shows "checkReset currentTime config =
           (Before lastReset
              (Date (Year currentTime) (Month currentTime)
                 (min (StartDay config) (daysIn (Month currentTime) (Year currentTime)))
                 0 0 0 0 (zoneOffset currentTime))
            \<and> After currentTime
              (Date (Year currentTime) (Month currentTime)
                 (min (StartDay config) (daysIn (Month currentTime) (Year currentTime)))
                 0 0 0 0 (zoneOffset currentTime)))"
proof -
  have "(if daysIn (Month currentTime) (Year currentTime) < StartDay config
         then daysIn (Month currentTime) (Year currentTime) else StartDay config)
        = min (StartDay config) (daysIn (Month currentTime) (Year currentTime))"
    by (simp add: min_def)
  then show ?thesis
    using assms(1) by (simp add: checkReset_def Let_def last_day_of_month [OF assms(2,3)])
qed

text \<open>
  Claim C4 fails on the code. \<open>checkReset\<close> parses the recorded date as midnight UTC,
  builds the reset date as midnight local time and compares instants. West of Greenwich
  local midnight is later than UTC midnight of the same date, so a recorded date equal to
  the reset date counts as before it: at UTC-5, on 2024-02-05 at noon, with the recorded
  date 2024-02-05 and start day 5, \<open>checkReset\<close> returns true, where the comment at line
  140 and the claim ask for a recorded date strictly before the reset date. At UTC the
  same input gives false. The comparison with the clock is strict as well: at the first
  instant of the reset date, with an older recorded date, \<open>checkReset\<close> returns false.
\<close>

theorem checkReset_west_of_Greenwich:
  "Parse ''2024-02-05'' = Some (Date 2024 2 5 0 0 0 0 UTC)
   \<and> checkReset (noon 2024 2 5 (- 18000)) (exampleConfig ''telegram'' ''download'' 0 ''2024-02-05'')
   \<and> \<not> checkReset (noon 2024 2 5 0) (exampleConfig ''telegram'' ''download'' 0 ''2024-02-05'')
   \<and> \<not> checkReset \<lparr>Year = 2024, Month = 2, Day = 5, nsecOfDay = 0, zoneOffset = 28800\<rparr>
         (exampleConfig ''telegram'' ''download'' 0 ''2024-01-05'')"
  by code_simp

text \<open>
  Claim C8 fails on the code for the same reason. At UTC-5, with the recorded date
  2024-01-05 and start day 5, \<open>checkReset\<close> is true at noon of 2024-02-05;
  \<open>resetStatistics\<close> then records 2024-02-05; and \<open>checkReset\<close> at six in the evening
  of the same day is true again, so every round of that day closes the cycle anew. At
  UTC+8 the second call returns false, as the claim says.
\<close>

theorem checkReset_again_after_resetStatistics:
  "checkReset (noon 2024 2 5 (- 18000)) (exampleConfig ''telegram'' ''download'' 0 ''2024-01-05'')
   \<and> LastReset (Statistics (fst (resetStatistics exactOps (noon 2024 2 5 (- 18000))
        (exampleConfig ''telegram'' ''download'' 0 ''2024-01-05'') (exampleWorld [Response 200]))))
      = ''2024-02-05''
   \<and> checkReset \<lparr>Year = 2024, Month = 2, Day = 5, nsecOfDay = 64800000000000, zoneOffset = - 18000\<rparr>
        (fst (resetStatistics exactOps (noon 2024 2 5 (- 18000))
          (exampleConfig ''telegram'' ''download'' 0 ''2024-01-05'') (exampleWorld [Response 200])))
   \<and> \<not> checkReset \<lparr>Year = 2024, Month = 2, Day = 5, nsecOfDay = 64800000000000, zoneOffset = 28800\<rparr>
        (fst (resetStatistics exactOps (noon 2024 2 5 28800)
          (exampleConfig ''telegram'' ''download'' 0 ''2024-01-05'') (exampleWorld [Response 200])))"
proof -
  let ?c = "exampleConfig ''telegram'' ''download'' 0 ''2024-01-05''"
  let ?c' = "exampleConfig ''telegram'' ''download'' 0 ''2024-02-05''"
  have before: "checkReset (noon 2024 2 5 (- 18000)) ?c"
    by code_simp
  have today: "Format (noon 2024 2 5 (- 18000)) = ''2024-02-05''"
    "Format (noon 2024 2 5 28800) = ''2024-02-05''"
    by code_simp+
  have same: "LastReset (Statistics (fst (resetStatistics exactOps (noon 2024 2 5 z) ?c w)))
                = Format (noon 2024 2 5 z)"
    "StartDay (fst (resetStatistics exactOps (noon 2024 2 5 z) ?c w)) = StartDay ?c'"
    "LastReset (Statistics ?c') = ''2024-02-05''" for z w
    by (simp_all add: resetStatistics_config exampleConfig_def)
  have west: "checkReset \<lparr>Year = 2024, Month = 2, Day = 5, nsecOfDay = 64800000000000,
                  zoneOffset = - 18000\<rparr> ?c'"
    by code_simp
  have east: "\<not> checkReset \<lparr>Year = 2024, Month = 2, Day = 5, nsecOfDay = 64800000000000,
                  zoneOffset = 28800\<rparr> ?c'"
    by code_simp
  have "checkReset t (fst (resetStatistics exactOps (noon 2024 2 5 z) ?c w)) = checkReset t ?c'"
    if "Format (noon 2024 2 5 z) = ''2024-02-05''" for t z w
    by (rule checkReset_cong) (simp_all add: same that)
  then show ?thesis
    using before today same west east by simp
qed

end
